theory Spec2Isabelle
  imports Main "HOL-Library.AList"
begin

section \<open>Python strings, files and exceptions\<close>

text \<open>
  A Python \<open>str\<close> is modelled as a \<open>string\<close>; a \<open>char\<close> stands for a code point
  below 256.  A text file is modelled by the text Python's text layer delivers for it
  (decoded, line ends already translated to the newline character); a file that does
  not exist is \<open>None\<close>.
\<close>

abbreviation NL :: char where "NL \<equiv> CHR 0x0A"
abbreviation DQ :: char where "DQ \<equiv> CHR 0x22"
abbreviation SQ :: char where "SQ \<equiv> CHR 0x27"

text \<open>
  The exceptions that occur in \<open>tools.py\<close>.  \<open>SystemExit\<close> (raised by \<open>sys.exit\<close>) and
  \<open>KeyboardInterrupt\<close> derive from \<open>BaseException\<close> only; every other one derives from
  \<open>Exception\<close>, which is what \<open>except Exception\<close> catches.  \<open>Unmodelled\<close> is no
  Python exception: it is the result of the model on an input outside the part of
  \<open>str.format\<close> and of the regular expressions that is modelled.
\<close>

datatype py_exc =
    FatalError string
  | SystemExit string
  | KeyboardInterrupt
  | KeyError string
  | IndexError
  | ValueError
  | TypeError
  | OSError string
  | FileExistsError string
  | FileNotFoundError string
  | NotADirectoryError string
  | CalledProcessError
  | UnicodeError
  | NotImplementedError
  | Unmodelled string

fun is_Exception :: "py_exc \<Rightarrow> bool" where
  "is_Exception (SystemExit _) = False"
| "is_Exception KeyboardInterrupt = False"
| "is_Exception _ = True"

text \<open>\<open>str.isspace\<close> of one character, for code points below 256.\<close>

definition isspace :: "char \<Rightarrow> bool" where
  "isspace c = (c \<in> {CHR 0x09, CHR 0x0A, CHR 0x0B, CHR 0x0C, CHR 0x0D,
                      CHR 0x1C, CHR 0x1D, CHR 0x1E, CHR 0x1F, CHR 0x20, CHR 0x85, CHR 0xA0})"

definition rstrip :: "string \<Rightarrow> string" where
  "rstrip s = rev (dropWhile isspace (rev s))"

definition lstrip :: "string \<Rightarrow> string" where
  "lstrip s = dropWhile isspace s"

definition strip :: "string \<Rightarrow> string" where
  "strip s = rstrip (lstrip s)"

text \<open>
  \<open>for line in f\<close>: the lines of a text, each with its newline; the last line has none
  when the text does not end with a newline.
\<close>

primrec lines_acc :: "string \<Rightarrow> string \<Rightarrow> string list" where
  "lines_acc cur [] = (if cur = [] then [] else [cur])"
| "lines_acc cur (c # cs) =
     (if c = NL then (cur @ [c]) # lines_acc [] cs else lines_acc (cur @ [c]) cs)"

definition file_lines :: "string \<Rightarrow> string list" where
  "file_lines text = lines_acc [] text"

section \<open>CacheStore\<close>

text \<open>
  \<open>_strip_quotes\<close>: \<open>re.match\<close> against
  \<^verbatim>\<open>^"(.*)"$|^'(.*)'$|^(.*)$\<close>, then the group that matched, right-stripped.
  \<open>.\<close> does not match a newline and \<open>$\<close> matches at the end of the string or just before
  a newline that ends it.  So the part \<open>b\<close> of the value the pattern has to cover is the
  value without one final newline; no alternative matches when \<open>b\<close> holds a newline (the
  result is \<open>None\<close>); the first alternative matches when \<open>b\<close> starts and ends with a
  double quote (two distinct characters), the second likewise for the single quote, the
  third otherwise.
\<close>

definition chop_nl :: "string \<Rightarrow> string" where
  "chop_nl s = (if s \<noteq> [] \<and> last s = NL then butlast s else s)"

definition wrapped :: "char \<Rightarrow> string \<Rightarrow> bool" where
  "wrapped q s = (2 \<le> length s \<and> hd s = q \<and> last s = q)"

definition strip_quotes :: "string \<Rightarrow> string option" where
  "strip_quotes v =
     (let b = chop_nl v in
      if NL \<in> set b then None
      else if wrapped DQ b then Some (rstrip (butlast (tl b)))
      else if wrapped SQ b then Some (rstrip (butlast (tl b)))
      else Some (rstrip b))"

text \<open>
  One line of the cache against \<^verbatim>\<open>^([^#/:=]+):([^:=]+)=(.*)\n$\<close>.  Each group is
  followed by a character its class excludes, so each group is the longest run of its
  class: the name runs to the first of \<open>#/:=\<close>, which has to be a colon; the type runs to
  the first of \<open>:=\<close>, which has to be an equals sign; the value runs to the first newline,
  after which the string ends (or one more newline ends it).  The result is the pair of
  groups 1 and 3.
\<close>

definition name_char :: "char \<Rightarrow> bool" where
  "name_char c = (c \<notin> {CHR ''#'', CHR ''/'', CHR '':'', CHR ''=''})"

definition type_char :: "char \<Rightarrow> bool" where
  "type_char c = (c \<notin> {CHR '':'', CHR ''=''})"

definition match_cache_line :: "string \<Rightarrow> (string \<times> string) option" where
  "match_cache_line line =
     (let name = takeWhile name_char line; r1 = dropWhile name_char line in
      if name = [] then None
      else case r1 of
        [] \<Rightarrow> None
      | c1 # r2 \<Rightarrow>
          if c1 \<noteq> CHR '':'' then None
          else let ty = takeWhile type_char r2; r3 = dropWhile type_char r2 in
            if ty = [] then None
            else case r3 of
              [] \<Rightarrow> None
            | c2 # r4 \<Rightarrow>
                if c2 \<noteq> CHR ''='' then None
                else let val = takeWhile (\<lambda>c. c \<noteq> NL) r4; r5 = dropWhile (\<lambda>c. c \<noteq> NL) r4 in
                  if r5 = [NL] \<or> r5 = [NL, NL] then Some (name, val) else None)"

text \<open>
  \<open>_parse_cmakecache\<close>: a Python dict keeps its keys in insertion order and overwrites
  the value of a key it already has, as \<open>AList.update\<close> does on an association list.
\<close>

fun parse_lines :: "(string \<times> string) list \<Rightarrow> string list \<Rightarrow> (string \<times> string) list" where
  "parse_lines result [] = result"
| "parse_lines result (line # ls) =
     (case match_cache_line line of
        Some (k, v) \<Rightarrow> parse_lines (AList.update k v result) ls
      | None \<Rightarrow> parse_lines result ls)"

definition parse_cmakecache :: "string \<Rightarrow> (string \<times> string) list" where
  "parse_cmakecache text = parse_lines [] (file_lines text)"

text \<open>
  \<open>key, value = entry.split('=', 1)\<close>: the parts before and after the first equals sign;
  a \<open>ValueError\<close> when the entry has none (one part cannot be unpacked into two names).
\<close>

definition entry_key :: "string \<Rightarrow> string" where
  "entry_key entry = takeWhile (\<lambda>c. c \<noteq> CHR ''='') entry"

definition entry_value :: "string \<Rightarrow> string" where
  "entry_value entry = tl (dropWhile (\<lambda>c. c \<noteq> CHR ''='') entry)"

definition split_entry :: "string \<Rightarrow> py_exc + (string \<times> string)" where
  "split_entry entry =
     (if CHR ''='' \<in> set entry then Inr (entry_key entry, entry_value entry)
      else Inl ValueError)"

text \<open>The loop of \<open>_new_cmakecache_entries\<close> over the proposed entries.\<close>

fun entries_differ :: "(string \<times> string) list \<Rightarrow> string list \<Rightarrow> py_exc + bool" where
  "entries_differ current_cache [] = Inr False"
| "entries_differ current_cache (entry # es) =
     (case split_entry entry of
        Inl e \<Rightarrow> Inl e
      | Inr (key, val) \<Rightarrow>
          (case map_of current_cache key of
             None \<Rightarrow> Inr True
           | Some current_value \<Rightarrow>
               if strip_quotes val \<noteq> Some current_value then Inr True
               else entries_differ current_cache es))"

text \<open>
  \<open>_new_cmakecache_entries\<close>; the cache file is its text, \<open>None\<close> when the path does
  not exist.
\<close>

definition new_cmakecache_entries :: "string option \<Rightarrow> string list \<Rightarrow> py_exc + bool" where
  "new_cmakecache_entries cache_file new_cache_entries =
     (case cache_file of
        None \<Rightarrow> Inr True
      | Some text \<Rightarrow>
          if new_cache_entries \<noteq> [] then entries_differ (parse_cmakecache text) new_cache_entries
          else Inr False)"

text \<open>
  What \<open>_new_cmakecache_entries\<close> tests for one proposed entry: the key is in the
  snapshot and the de-quoted proposed value is the stored value.
\<close>

definition entry_unchanged :: "(string \<times> string) list \<Rightarrow> string \<Rightarrow> bool" where
  "entry_unchanged current_cache entry =
     (case map_of current_cache (entry_key entry) of
        None \<Rightarrow> False
      | Some current_value \<Rightarrow> strip_quotes (entry_value entry) = Some current_value)"

section \<open>Fitting a progress line into the terminal\<close>

text \<open>
  Python slices \<open>s[:e]\<close> and \<open>s[b:]\<close>; a negative index counts from the end, and an
  index outside the string is clipped.
\<close>

definition slice_to :: "'a list \<Rightarrow> int \<Rightarrow> 'a list" where
  "slice_to s e = (if e < 0 then take (nat (int (length s) + e)) s else take (nat e) s)"

definition slice_from :: "'a list \<Rightarrow> int \<Rightarrow> 'a list" where
  "slice_from s b = (if b < 0 then drop (nat (int (length s) + b)) s else drop (nat b) s)"

text \<open>
  \<open>fit_text_in_terminal\<close>.  The width is the column count \<open>os.get_terminal_size\<close>
  reports, which the operating system gives as an unsigned number.
\<close>

definition fit_text_in_terminal :: "nat \<Rightarrow> string \<Rightarrow> string" where
  "fit_text_in_terminal terminal_width out =
     (let space_for_dots = 3 in
      if terminal_width \<le> space_for_dots then replicate terminal_width (CHR ''.'')
      else if length out \<ge> terminal_width then
        (let elide_size = (terminal_width - space_for_dots) div 2 in
         slice_to out (int elide_size) @ ''...''
           @ slice_from out (int (length out) - int elide_size))
      else out)"

section \<open>The environment of a call\<close>

text \<open>
  What the functions read and change outside their arguments: the regular files with
  their text, the directories, the process environment, the commands that
  \<open>executable_exists\<close> finds to run (\<open>subprocess.check_output\<close> returns), the path of the
  running interpreter (\<open>sys.executable\<close>) and the function \<open>realpath\<close> of \<open>tools.py\<close>,
  which asks the operating system for the canonical path.  A path that names one of the
  cache and configuration files below names a regular file when it exists.
\<close>

record world =
  files :: "string \<Rightarrow> string option"
  is_dir :: "string \<Rightarrow> bool"
  environ :: "string \<Rightarrow> string option"
  runs :: "string list \<Rightarrow> bool"
  sys_executable :: string
  realpath :: "string \<Rightarrow> string"

definition path_exists :: "world \<Rightarrow> string \<Rightarrow> bool" where
  "path_exists w p = (files w p \<noteq> None \<or> is_dir w p)"

text \<open>\<open>os.path.join\<close> of two parts, as on POSIX.\<close>

definition path_join :: "string \<Rightarrow> string \<Rightarrow> string" where
  "path_join a b =
     (if b \<noteq> [] \<and> hd b = CHR ''/'' then b
      else if a = [] \<or> last a = CHR ''/'' then a @ b
      else a @ ''/'' @ b)"

text \<open>
  The attributes of \<open>args\<close> that \<open>tools.py\<close> reads and writes.  The functions change
  \<open>args\<close> in place; the model returns the changed record.
\<close>

record args =
  project_dir :: string
  build_dir :: string
  define_cache_entry :: "string list"
  ccache :: bool
  generator :: "string option"
  cmake_warn_uninitialized :: bool
  no_hints :: bool
  verbose :: bool

section \<open>TargetResolver\<close>

text \<open>
  One line of an sdkconfig file against \<^verbatim>\<open>^KEY="?([^"]*)"?$\<close>, for a key without
  regular expression operators (the only key used is \<open>CONFIG_IDF_TARGET\<close>, for which the
  assertion of \<open>get_sdkconfig_value\<close> holds).  After \<open>KEY=\<close> and one optional double
  quote, the group is the longest run without a double quote (it may hold the newline);
  what follows has to be nothing, or a double quote, or a double quote and the final
  newline.  Giving the first quote back or shortening the group matches no further line.
\<close>

definition match_sdkconfig_line :: "string \<Rightarrow> string \<Rightarrow> string option" where
  "match_sdkconfig_line key line =
     (let p = key @ ''='' in
      if take (length p) line \<noteq> p then None
      else let r = drop (length p) line;
               r' = (case r of [] \<Rightarrow> [] | c # t \<Rightarrow> if c = DQ then t else r);
               g = takeWhile (\<lambda>c. c \<noteq> DQ) r';
               s = dropWhile (\<lambda>c. c \<noteq> DQ) r'
           in if s = [] \<or> s = [DQ] \<or> s = [DQ, NL] then Some g else None)"

text \<open>The loop of \<open>get_sdkconfig_value\<close>: the last line that matches gives the value.\<close>

fun sdkconfig_scan :: "string \<Rightarrow> string option \<Rightarrow> string list \<Rightarrow> string option" where
  "sdkconfig_scan key val [] = val"
| "sdkconfig_scan key val (line # ls) =
     (case match_sdkconfig_line key line of
        Some v \<Rightarrow> sdkconfig_scan key (Some v) ls
      | None \<Rightarrow> sdkconfig_scan key val ls)"

definition get_sdkconfig_value :: "world \<Rightarrow> string \<Rightarrow> string \<Rightarrow> string option" where
  "get_sdkconfig_value w sdkconfig_file key =
     (case files w sdkconfig_file of
        None \<Rightarrow> None
      | Some t \<Rightarrow> sdkconfig_scan key None (file_lines t))"

definition get_target :: "world \<Rightarrow> string \<Rightarrow> string \<Rightarrow> string option" where
  "get_target w path sdkconfig_filename =
     get_sdkconfig_value w (path_join path sdkconfig_filename) ''CONFIG_IDF_TARGET''"

text \<open>Truth of an optional string in a condition: \<open>None\<close> and the empty string are false.\<close>

definition truthy :: "string option \<Rightarrow> bool" where
  "truthy v = (case v of None \<Rightarrow> False | Some s \<Rightarrow> s \<noteq> [])"

text \<open>The three conflict messages of \<open>_guess_or_check_idf_target\<close>.\<close>

definition quoted :: "string \<Rightarrow> string" where
  "quoted s = [SQ] @ s @ [SQ]"

definition env_vs_sdkconfig_message :: "string \<Rightarrow> string \<Rightarrow> string \<Rightarrow> string" where
  "env_vs_sdkconfig_message t_conf t_env prog =
     ''Project sdkconfig was generated for target '' @ quoted t_conf
     @ '', but environment variable IDF_TARGET is set to '' @ quoted t_env
     @ ''. Run '' @ quoted (prog @ '' set-target '' @ t_env)
     @ '' to generate new sdkconfig file for target '' @ t_env @ ''.''"

definition env_vs_cache_message :: "string \<Rightarrow> string \<Rightarrow> string \<Rightarrow> string" where
  "env_vs_cache_message t_env t_cache prog =
     ''Target settings are not consistent: '' @ quoted t_env @ '' in the environment, ''
     @ quoted t_cache @ '' in CMakeCache.txt. Run '' @ quoted (prog @ '' fullclean'')
     @ '' to start again.''"

definition cache_vs_sdkconfig_message :: "string \<Rightarrow> string \<Rightarrow> string \<Rightarrow> string" where
  "cache_vs_sdkconfig_message t_conf t_cache prog =
     ''Project sdkconfig was generated for target '' @ quoted t_conf
     @ '', but CMakeCache.txt contains '' @ quoted t_cache
     @ ''. To keep the setting in sdkconfig ('' @ t_conf
     @ '') and re-generate CMakeCache.txt, run '' @ quoted (prog @ '' fullclean'')
     @ ''. To re-generate sdkconfig for '' @ quoted t_cache
     @ '' target, run '' @ quoted (prog @ '' set-target '' @ t_cache) @ ''.''"

definition str_of :: "string option \<Rightarrow> string" where
  "str_of v = (case v of None \<Rightarrow> ''None'' | Some s \<Rightarrow> s)"

text \<open>
  \<open>_guess_or_check_idf_target\<close>.  \<open>cache\<close> is the parsed snapshot, empty when there is
  no cache file.  The result is the raised \<open>FatalError\<close> or the \<open>args\<close>, whose list of
  proposed entries may have gained the guessed target.  The line printed when \<open>verbose\<close>
  is set changes nothing else and is left out.
\<close>

definition guess_or_check_idf_target ::
    "world \<Rightarrow> args \<Rightarrow> string \<Rightarrow> (string \<times> string) list \<Rightarrow> py_exc + args" where
  "guess_or_check_idf_target w a prog_name cache =
     (let idf_target_from_sdkconfig = get_target w (project_dir a) ''sdkconfig'';
          idf_target_from_sdkconfig_defaults = get_target w (project_dir a) ''sdkconfig.defaults'';
          idf_target_from_env = environ w ''IDF_TARGET'';
          idf_target_from_cache = map_of cache ''IDF_TARGET''
      in
      if cache = [] \<and> \<not> truthy idf_target_from_env then
        (let guessed_target =
               (if truthy idf_target_from_sdkconfig then idf_target_from_sdkconfig
                else idf_target_from_sdkconfig_defaults)
         in if truthy guessed_target
            then Inr (a\<lparr>define_cache_entry :=
                          define_cache_entry a @ [''IDF_TARGET='' @ str_of guessed_target]\<rparr>)
            else Inr a)
      else if truthy idf_target_from_env then
        (if truthy idf_target_from_sdkconfig \<and> idf_target_from_sdkconfig \<noteq> idf_target_from_env
         then Inl (FatalError (env_vs_sdkconfig_message (str_of idf_target_from_sdkconfig)
                                 (str_of idf_target_from_env) prog_name))
         else if truthy idf_target_from_cache \<and> idf_target_from_cache \<noteq> idf_target_from_env
         then Inl (FatalError (env_vs_cache_message (str_of idf_target_from_env)
                                 (str_of idf_target_from_cache) prog_name))
         else Inr a)
      else if truthy idf_target_from_cache \<and> truthy idf_target_from_sdkconfig
              \<and> idf_target_from_cache \<noteq> idf_target_from_sdkconfig
      then Inl (FatalError (cache_vs_sdkconfig_message (str_of idf_target_from_sdkconfig)
                              (str_of idf_target_from_cache) prog_name))
      else Inr a)"

text \<open>
  The cache as \<open>ensure_build_directory\<close> hands it to the resolver: the parsed file when
  the path exists, the empty dict otherwise.
\<close>

definition cache_path :: "args \<Rightarrow> string" where
  "cache_path a = path_join (build_dir a) ''CMakeCache.txt''"

definition load_cache :: "world \<Rightarrow> args \<Rightarrow> (string \<times> string) list" where
  "load_cache w a =
     (case files w (cache_path a) of None \<Rightarrow> [] | Some t \<Rightarrow> parse_cmakecache t)"

text \<open>
  The documented conflict rules, in the documented order: the environment's target
  against the project configuration's, the environment's against the persisted cache's,
  the persisted cache's against the project configuration's.  A rule is violated when
  both of its targets are set and they differ.
\<close>

datatype conflict_rule = Env_vs_config | Env_vs_cache | Cache_vs_config

definition violated_rules ::
    "string option \<Rightarrow> string option \<Rightarrow> string option \<Rightarrow> conflict_rule list" where
  "violated_rules from_config from_environment from_cache =
     (if truthy from_environment \<and> truthy from_config \<and> from_config \<noteq> from_environment
      then [Env_vs_config] else [])
     @ (if truthy from_environment \<and> truthy from_cache \<and> from_cache \<noteq> from_environment
        then [Env_vs_cache] else [])
     @ (if truthy from_cache \<and> truthy from_config \<and> from_cache \<noteq> from_config
        then [Cache_vs_config] else [])"

fun conflict_of ::
    "string \<Rightarrow> string option \<Rightarrow> string option \<Rightarrow> string option \<Rightarrow> conflict_rule \<Rightarrow> py_exc" where
  "conflict_of prog from_config from_environment from_cache Env_vs_config =
     FatalError (env_vs_sdkconfig_message (str_of from_config) (str_of from_environment) prog)"
| "conflict_of prog from_config from_environment from_cache Env_vs_cache =
     FatalError (env_vs_cache_message (str_of from_environment) (str_of from_cache) prog)"
| "conflict_of prog from_config from_environment from_cache Cache_vs_config =
     FatalError (cache_vs_sdkconfig_message (str_of from_config) (str_of from_cache) prog)"

text \<open>What a call raised, if anything.\<close>

definition raised :: "py_exc + 'a \<Rightarrow> py_exc option" where
  "raised r = (case r of Inl e \<Rightarrow> Some e | Inr _ \<Rightarrow> None)"

section \<open>HintEngine\<close>

subsection \<open>\<open>str.format\<close> with positional arguments\<close>

text \<open>
  The format string is read from left to right: \<open>{{\<close> and \<open>}}\<close> are the two braces, a
  field \<open>{}\<close> takes the next argument, a field of digits takes the argument of that
  index, and any other field is a name, which raises \<open>KeyError\<close> since only positional
  arguments are passed.  A missing argument raises \<open>IndexError\<close>; a brace that stands
  alone, a field that is not closed and a change between the two numberings raise
  \<open>ValueError\<close>, and so does an index above the largest \<open>Py_ssize_t\<close> (of a 64-bit
  build).  Fields with a conversion, a format specification, an attribute or an index
  (\<open>!\<close>, \<open>:\<close>, \<open>.\<close>, \<open>[\<close>) are outside the model, with what they nest.
\<close>

datatype numbering = Unnumbered | Automatic nat | Manual

datatype fmt_state = Txt | Opened | Field string | Closed

definition is_digit :: "char \<Rightarrow> bool" where
  "is_digit c = (c \<in> set ''0123456789'')"

definition nat_of_digits :: "string \<Rightarrow> nat" where
  "nat_of_digits ds = foldl (\<lambda>n c. 10 * n + (of_char c - 48)) 0 ds"

definition resolve_field ::
    "string list \<Rightarrow> numbering \<Rightarrow> string \<Rightarrow> py_exc + (string \<times> numbering)" where
  "resolve_field fargs n f =
     (if list_ex (\<lambda>c. c \<in> set ''!:.['') f then Inl (Unmodelled ''format field'')
      else if f = [] then
        (case n of
           Manual \<Rightarrow> Inl ValueError
         | Unnumbered \<Rightarrow> if 0 < length fargs then Inr (fargs ! 0, Automatic 1) else Inl IndexError
         | Automatic k \<Rightarrow>
             if k < length fargs then Inr (fargs ! k, Automatic (Suc k)) else Inl IndexError)
      else if list_all is_digit f then
        (if nat_of_digits f > 9223372036854775807 then Inl ValueError
         else case n of
           Automatic k \<Rightarrow> Inl ValueError
         | _ \<Rightarrow> if nat_of_digits f < length fargs then Inr (fargs ! nat_of_digits f, Manual)
                else Inl IndexError)
      else Inl (KeyError f))"

fun fmt :: "string list \<Rightarrow> numbering \<Rightarrow> fmt_state \<Rightarrow> string \<Rightarrow> string \<Rightarrow> py_exc + string" where
  "fmt fargs n Txt out [] = Inr out"
| "fmt fargs n st out [] = Inl ValueError"
| "fmt fargs n Txt out (c # cs) =
     (if c = CHR ''{'' then fmt fargs n Opened out cs
      else if c = CHR ''}'' then fmt fargs n Closed out cs
      else fmt fargs n Txt (out @ [c]) cs)"
| "fmt fargs n Opened out (c # cs) =
     (if c = CHR ''{'' then fmt fargs n Txt (out @ [c]) cs
      else if c = CHR ''}'' then
        (case resolve_field fargs n [] of
           Inl e \<Rightarrow> Inl e
         | Inr (v, n') \<Rightarrow> fmt fargs n' Txt (out @ v) cs)
      else fmt fargs n (Field [c]) out cs)"
| "fmt fargs n (Field f) out (c # cs) =
     (if c = CHR ''}'' then
        (case resolve_field fargs n f of
           Inl e \<Rightarrow> Inl e
         | Inr (v, n') \<Rightarrow> fmt fargs n' Txt (out @ v) cs)
      else if c = CHR ''{'' then
        (if list_ex (\<lambda>c. c \<in> set ''!:.['') f then Inl (Unmodelled ''format field'')
         else Inl ValueError)
      else fmt fargs n (Field (f @ [c])) out cs)"
| "fmt fargs n Closed out (c # cs) =
     (if c = CHR ''}'' then fmt fargs n Txt (out @ [c]) cs else Inl ValueError)"

definition format :: "string \<Rightarrow> string list \<Rightarrow> py_exc + string" where
  "format template fargs = fmt fargs Unnumbered Txt [] template"

subsection \<open>Regular expressions\<close>

text \<open>
  \<open>re.compile(regex).search(output)\<close> is a parameter of the engine: a function that
  gives, for a pattern and a text, \<open>re.error\<close>, no match, or the groups of the first
  match (\<open>None\<close> for a group that took no part in it).
\<close>

datatype re_result = Re_error | No_match | Matched "string option list" | Re_unmodelled

fun is_matched :: "re_result \<Rightarrow> bool" where
  "is_matched (Matched gs) = True"
| "is_matched r = False"

text \<open>
  The search for a pattern without operators, which matches its own text and nothing
  else and has no group: it is found where the text contains it.
\<close>

definition re_special :: "char \<Rightarrow> bool" where
  "re_special c = (c \<in> set ''.^$*+?{}[]|()'' \<or> c = CHR 0x5C)"

definition starts_with :: "string \<Rightarrow> string \<Rightarrow> bool" where
  "starts_with p t = (take (length p) t = p)"

fun contains :: "string \<Rightarrow> string \<Rightarrow> bool" where
  "contains p [] = (p = [])"
| "contains p (c # cs) = (starts_with p (c # cs) \<or> contains p cs)"

definition literal_search :: "string \<Rightarrow> string \<Rightarrow> re_result" where
  "literal_search p t =
     (if list_ex re_special p then Re_unmodelled
      else if contains p t then Matched [] else No_match)"

subsection \<open>The rule database and the scan\<close>

text \<open>
  One entry of \<open>hints.yml\<close> as \<open>yaml.safe_load\<close> returns it: a dict in which each of
  the keys may be missing.  \<open>match_to_output\<close> is the truth of
  \<open>hint.get('match_to_output', '')\<close>.
\<close>

record variable_set =
  hint_variables :: "string list option"
  re_variables :: "string list option"

record hint_rule =
  re :: "string option"
  hint :: "string option"
  variables :: "variable_set list option"
  match_to_output :: bool

text \<open>\<open>sep.join(parts)\<close>.\<close>

fun join :: "string \<Rightarrow> string list \<Rightarrow> string" where
  "join sep [] = []"
| "join sep [x] = x"
| "join sep (x # y # ys) = x @ sep @ join sep (y # ys)"

text \<open>The text of a log as one line: \<open>' '.join(line.strip() for line in file if line.strip())\<close>.\<close>

definition flatten :: "string \<Rightarrow> string" where
  "flatten t = join '' '' (filter (\<lambda>l. l \<noteq> []) (map strip (file_lines t)))"

text \<open>
  The handlers of \<open>generate_hints\<close>: a \<open>KeyError\<close> in the first part of the loop body
  (a missing key of a rule or of a variable set, a named field in a template) prints a
  message and calls \<open>sys.exit(1)\<close>; so does \<open>re.error\<close>.  Other exceptions pass.
\<close>

abbreviation exit1 :: py_exc where "exit1 \<equiv> SystemExit ''1''"

fun on_KeyError_exit :: "py_exc \<Rightarrow> py_exc" where
  "on_KeyError_exit (KeyError k) = exit1"
| "on_KeyError_exit e = e"

text \<open>The loop over the variable sets of a rule, which fills \<open>hint_list\<close>.\<close>

fun scan_variables ::
    "(string \<Rightarrow> string \<Rightarrow> re_result) \<Rightarrow> hint_rule \<Rightarrow> string \<Rightarrow> variable_set list
       \<Rightarrow> string list \<Rightarrow> py_exc + string list" where
  "scan_variables search h output [] hint_list = Inr hint_list"
| "scan_variables search h output (v # vs) hint_list =
     (case hint_variables v of
        None \<Rightarrow> Inl exit1
      | Some hint_vars \<Rightarrow>
     (case re_variables v of
        None \<Rightarrow> Inl exit1
      | Some re_vars \<Rightarrow>
     (case re h of
        None \<Rightarrow> Inl exit1
      | Some re_template \<Rightarrow>
     (case format re_template re_vars of
        Inl e \<Rightarrow> Inl (on_KeyError_exit e)
      | Inr regex \<Rightarrow>
     (case search regex output of
        Re_error \<Rightarrow> Inl exit1
      | Re_unmodelled \<Rightarrow> Inl (Unmodelled ''regular expression'')
      | No_match \<Rightarrow> scan_variables search h output vs hint_list
      | Matched gs \<Rightarrow>
     (case hint h of
        None \<Rightarrow> Inl exit1
      | Some hint_template \<Rightarrow>
     (case format hint_template hint_vars of
        Inl e \<Rightarrow> Inl (on_KeyError_exit e)
      | Inr message \<Rightarrow> scan_variables search h output vs (hint_list @ [message]))))))))"

text \<open>
  The hint of a rule without variable sets that matched: the groups joined by a comma
  when the rule asks for them (a group that is \<open>None\<close> makes \<open>join\<close> raise \<open>TypeError\<close>),
  and the message template formatted with that one argument.  A \<open>KeyError\<close> is raised
  again with a message of its own (the text of the rule in it is left out).
\<close>

fun join_groups :: "string option list \<Rightarrow> py_exc + string list" where
  "join_groups [] = Inr []"
| "join_groups (None # gs) = Inl TypeError"
| "join_groups (Some g # gs) = (case join_groups gs of Inl e \<Rightarrow> Inl e | Inr xs \<Rightarrow> Inr (g # xs))"

fun on_KeyError_hint :: "py_exc \<Rightarrow> py_exc" where
  "on_KeyError_hint (KeyError k) = KeyError ''Argument 'hint' missing. Check hints.yml file.''"
| "on_KeyError_hint e = e"

definition yield_match :: "hint_rule \<Rightarrow> string \<Rightarrow> string list \<times> py_exc option" where
  "yield_match h extra_info =
     (case hint h of
        None \<Rightarrow> ([], Some (on_KeyError_hint (KeyError ''hint'')))
      | Some hint_template \<Rightarrow>
          (case format hint_template [extra_info] of
             Inl e \<Rightarrow> ([], Some (on_KeyError_hint e))
           | Inr message \<Rightarrow> ([''HINT: '' @ message], None)))"

text \<open>
  The body of the loop over the rules, for one rule and one flattened log: the hints it
  yields, in order, and the exception that ended it, if any.
\<close>

definition hints_of_rule ::
    "(string \<Rightarrow> string \<Rightarrow> re_result) \<Rightarrow> hint_rule \<Rightarrow> string \<Rightarrow> string list \<times> py_exc option" where
  "hints_of_rule search h output =
     (case variables h of
        Some (v # vs) \<Rightarrow>
          (case scan_variables search h output (v # vs) [] of
             Inl e \<Rightarrow> ([], Some e)
           | Inr hint_list \<Rightarrow> (map (\<lambda>message. ''HINT: '' @ message) hint_list, None))
      | _ \<Rightarrow>
          (case re h of
             None \<Rightarrow> ([], Some exit1)
           | Some regex \<Rightarrow>
               (case search regex output of
                  Re_error \<Rightarrow> ([], Some exit1)
                | Re_unmodelled \<Rightarrow> ([], Some (Unmodelled ''regular expression''))
                | No_match \<Rightarrow> ([], None)
                | Matched gs \<Rightarrow>
                    if match_to_output h then
                      (case join_groups gs of
                         Inl e \<Rightarrow> ([], Some e)
                       | Inr xs \<Rightarrow> yield_match h (join '', '' xs))
                    else yield_match h [])))"

fun hints_of_rules ::
    "(string \<Rightarrow> string \<Rightarrow> re_result) \<Rightarrow> string \<Rightarrow> hint_rule list \<Rightarrow> string list \<times> py_exc option" where
  "hints_of_rules search output [] = ([], None)"
| "hints_of_rules search output (h # hs) =
     (case hints_of_rule search h output of
        (ys, Some e) \<Rightarrow> (ys, Some e)
      | (ys, None) \<Rightarrow>
          (case hints_of_rules search output hs of (zs, r) \<Rightarrow> (ys @ zs, r)))"

text \<open>
  \<open>generate_hints\<close>: the rules are the loaded \<open>hints.yml\<close>; a file that cannot be opened
  raises \<open>OSError\<close>.  The generator's result is the list of the hints it yields and the
  exception that ended it, if any.
\<close>

fun generate_hints ::
    "(string \<Rightarrow> string \<Rightarrow> re_result) \<Rightarrow> hint_rule list \<Rightarrow> world \<Rightarrow> string list
       \<Rightarrow> string list \<times> py_exc option" where
  "generate_hints search hints w [] = ([], None)"
| "generate_hints search hints w (file_name # fs) =
     (case files w file_name of
        None \<Rightarrow> ([], Some (OSError file_name))
      | Some t \<Rightarrow>
          (case hints_of_rules search (flatten t) hints of
             (ys, Some e) \<Rightarrow> (ys, Some e)
           | (ys, None) \<Rightarrow>
               (case generate_hints search hints w fs of (zs, r) \<Rightarrow> (ys @ zs, r))))"

text \<open>
  Counting matches.  A variable set matches a log when the rule's pattern, filled with
  the set's fill-ins, is found in it; a rule without variable sets matches when its
  pattern is found.  \<open>matches_in\<close> is the number of matching variable sets of a rule in
  one log, or 1 for a rule without variable sets that matches.
\<close>

definition varset_matches ::
    "(string \<Rightarrow> string \<Rightarrow> re_result) \<Rightarrow> hint_rule \<Rightarrow> string \<Rightarrow> variable_set \<Rightarrow> bool" where
  "varset_matches search h output v =
     (case re h of
        None \<Rightarrow> False
      | Some re_template \<Rightarrow>
          (case re_variables v of
             None \<Rightarrow> False
           | Some re_vars \<Rightarrow>
               (case format re_template re_vars of
                  Inl e \<Rightarrow> False
                | Inr regex \<Rightarrow> is_matched (search regex output))))"

definition rule_matches :: "(string \<Rightarrow> string \<Rightarrow> re_result) \<Rightarrow> hint_rule \<Rightarrow> string \<Rightarrow> bool" where
  "rule_matches search h output =
     (case re h of None \<Rightarrow> False | Some regex \<Rightarrow> is_matched (search regex output))"

definition matches_in :: "(string \<Rightarrow> string \<Rightarrow> re_result) \<Rightarrow> hint_rule \<Rightarrow> string \<Rightarrow> nat" where
  "matches_in search h output =
     (case variables h of
        Some (v # vs) \<Rightarrow> length (filter (varset_matches search h output) (v # vs))
      | _ \<Rightarrow> if rule_matches search h output then 1 else 0)"

definition log_text :: "world \<Rightarrow> string \<Rightarrow> string" where
  "log_text w file_name = (case files w file_name of None \<Rightarrow> [] | Some t \<Rightarrow> flatten t)"

text \<open>
  The distinct rule/variable-set pairs that match in the logs taken together: the pair
  of the index of a rule and the index of one of its variable sets (\<open>None\<close> for a rule
  without variable sets), listed once when it matches in at least one log.
\<close>

definition matching_pairs ::
    "(string \<Rightarrow> string \<Rightarrow> re_result) \<Rightarrow> hint_rule list \<Rightarrow> string list \<Rightarrow> (nat \<times> nat option) list" where
  "matching_pairs search hints outputs =
     concat (map (\<lambda>(i, h).
        (case variables h of
           Some (v # vs) \<Rightarrow>
             map (\<lambda>(j, u). (i, Some j))
               (filter (\<lambda>(j, u). list_ex (\<lambda>output. varset_matches search h output u) outputs)
                  (enumerate 0 (v # vs)))
         | _ \<Rightarrow> if list_ex (rule_matches search h) outputs then [(i, None)] else []))
       (enumerate 0 hints))"

text \<open>
  The rule of the linker scenario: pattern template \<^verbatim>\<open>undefined reference to `{}'\<close>
  (a backquote before the field, an apostrophe after it), message template
  \<open>Check linkage of {}\<close>, one variable set.
\<close>

abbreviation BQ :: char where "BQ \<equiv> CHR 0x60"

definition linkage_rule :: hint_rule where
  "linkage_rule =
     \<lparr>re = Some (''undefined reference to '' @ [BQ] @ ''{}'' @ [SQ]),
      hint = Some ''Check linkage of {}'',
      variables = Some [\<lparr>hint_variables = Some [''foo symbol''], re_variables = Some [''foo'']\<rparr>],
      match_to_output = False\<rparr>"

section \<open>ProcessRunner\<close>

text \<open>
  The fields of a \<open>RunTool\<close> object.  \<open>tool_args\<close> is \<open>self.args\<close> (strings already) and
  \<open>rt_build_dir\<close> is \<open>self.build_dir\<close>, the directory of the logs.  A custom failure
  handler is a callable of the exit code and the two log paths; what the model keeps of
  a call of it is whether it returns (\<open>None\<close>) or raises.
\<close>

record run_tool =
  tool_name :: string
  tool_args :: "string list"
  cwd :: string
  env :: "(string \<times> string) list option"
  custom_error_handler :: "(int \<Rightarrow> string option \<Rightarrow> string option \<Rightarrow> py_exc option) option"
  rt_build_dir :: string
  hints :: bool
  force_progression :: bool
  interactive :: bool

text \<open>
  What the operating system answers when the command is launched: launching the process
  (or waiting for it) raises, or the process runs and exits with a process id and an
  exit code.  \<open>launch\<close>, a parameter of the runner, gives this answer together with the
  files as they are once the process has exited and the two stream readers have written
  the logs.
\<close>

datatype proc = Spawn_raises py_exc | Exits nat int

text \<open>What a call does that can be seen from outside, in order.\<close>

datatype event =
    Print string
  | Handler_called int "string option" "string option"
  | Hint_scan "string list"
  | Yellow_print string

text \<open>Decimal numerals, as \<open>str\<close> and the \<open>{}\<close> of a format give them.\<close>

fun str_nat :: "nat \<Rightarrow> string" where
  "str_nat n =
     (if n < 10 then [char_of (48 + n)] else str_nat (n div 10) @ [char_of (48 + n mod 10)])"

definition str_int :: "int \<Rightarrow> string" where
  "str_int i = (if i < 0 then ''-'' @ str_nat (nat (- i)) else str_nat (nat i))"

text \<open>
  \<open>quote_arg\<close>: \<open>re.match\<close> against \<^verbatim>\<open>^(?!['"]).*\s.*\<close> succeeds when the argument does
  not start with a quote and holds a white space character (the first one is reached by
  \<open>.*\<close>, since no newline stands before it).
\<close>

definition quote_arg :: "string \<Rightarrow> string" where
  "quote_arg arg =
     (if (arg = [] \<or> (hd arg \<noteq> SQ \<and> hd arg \<noteq> DQ)) \<and> list_ex isspace arg
      then [SQ] @ arg @ [SQ] else arg)"

definition announce :: "run_tool \<Rightarrow> event list" where
  "announce rt =
     [Print (''Running '' @ tool_name rt @ '' in directory '' @ quote_arg (cwd rt)),
      Print (''Executing '' @ [DQ] @ join '' '' (map quote_arg (tool_args rt)) @ [DQ] @ ''...'')]"

text \<open>
  \<open>os.mkdir\<close> is a parameter of the runner: the answer of the operating system to the
  call for a path in a world, which is the exception raised or the world with the new
  directory.  \<open>os_mkdir\<close> is the answer that the files and directories of the world
  alone decide: \<open>FileExistsError\<close> when the path exists, \<open>NotADirectoryError\<close> when its
  parent (\<open>os.path.dirname\<close>; the empty parent is the current directory) is a regular
  file, \<open>FileNotFoundError\<close> when there is no parent or the path is empty; otherwise the
  directory is made.
\<close>

definition dirname :: "string \<Rightarrow> string" where
  "dirname p =
     (let head = rev (dropWhile (\<lambda>c. c \<noteq> CHR ''/'') (rev p)) in
      if head \<noteq> [] \<and> \<not> list_all (\<lambda>c. c = CHR ''/'') head
      then rev (dropWhile (\<lambda>c. c = CHR ''/'') (rev head)) else head)"

definition os_mkdir :: "world \<Rightarrow> string \<Rightarrow> py_exc + world" where
  "os_mkdir w p =
     (if p = [] then Inl (FileNotFoundError p)
      else if path_exists w p then Inl (FileExistsError p)
      else if dirname p = [] \<or> is_dir w (dirname p)
      then Inr (w\<lparr>is_dir := (is_dir w)(p := True)\<rparr>)
      else if files w (dirname p) \<noteq> None then Inl (NotADirectoryError p)
      else Inl (FileNotFoundError p))"

text \<open>
  The first statement of \<open>run_command\<close>: the log directory is made, and
  \<open>FileExistsError\<close> alone is caught and passed over.
\<close>

definition mkdir_log ::
    "(world \<Rightarrow> string \<Rightarrow> py_exc + world) \<Rightarrow> run_tool \<Rightarrow> world \<Rightarrow> py_exc + world" where
  "mkdir_log mkdir rt w =
     (case mkdir w (path_join (rt_build_dir rt) ''log'') of
        Inl (FileExistsError p) \<Rightarrow> Inr w
      | Inl e \<Rightarrow> Inl e
      | Inr w1 \<Rightarrow> Inr w1)"

text \<open>
  \<open>run_command\<close>: after the log directory, the process is launched
  (\<open>NotImplementedError\<close> ends the program through \<open>sys.exit\<close> with a message), and when
  it has exited its exit code and the names of the two logs are returned.
\<close>

definition log_file :: "run_tool \<Rightarrow> string \<Rightarrow> nat \<Rightarrow> string" where
  "log_file rt kind pid =
     path_join (path_join (rt_build_dir rt) ''log'') (''idf_py_'' @ kind @ ''_output_'' @ str_nat pid)"

definition no_asyncio_message :: "world \<Rightarrow> string" where
  "no_asyncio_message w =
     ''ERROR: '' @ sys_executable w @ '' doesn't support asyncio. The issue can be worked around ''
     @ ''by re-running idf.py with the '' @ [DQ] @ ''--no-hints'' @ [DQ] @ '' argument.''"

definition run_command ::
    "(world \<Rightarrow> string \<Rightarrow> py_exc + world) \<Rightarrow> (run_tool \<Rightarrow> world \<Rightarrow> proc \<times> world)
       \<Rightarrow> run_tool \<Rightarrow> world
       \<Rightarrow> (py_exc + (int \<times> string option \<times> string option)) \<times> world" where
  "run_command mkdir launch rt w =
     (case mkdir_log mkdir rt w of
        Inl e \<Rightarrow> (Inl e, w)
      | Inr w1 \<Rightarrow>
          (case launch rt w1 of
             (Spawn_raises e, w2) \<Rightarrow>
               (if e = NotImplementedError then (Inl (SystemExit (no_asyncio_message w2)), w2)
                else (Inl e, w2))
           | (Exits pid returncode, w2) \<Rightarrow>
               (Inr (returncode, Some (log_file rt ''stderr'' pid),
                     Some (log_file rt ''stdout'' pid)),
                w2)))"

text \<open>\<open>subprocess.run\<close>, when hints are off: no capture, no log names.\<close>

definition run_plain ::
    "(run_tool \<Rightarrow> world \<Rightarrow> proc \<times> world) \<Rightarrow> run_tool \<Rightarrow> world
       \<Rightarrow> (py_exc + (int \<times> string option \<times> string option)) \<times> world" where
  "run_plain launch rt w =
     (case launch rt w of
        (Spawn_raises e, w2) \<Rightarrow> (Inl e, w2)
      | (Exits pid returncode, w2) \<Rightarrow> (Inr (returncode, None, None), w2))"

definition failed_with_logs_message :: "run_tool \<Rightarrow> int \<Rightarrow> string \<Rightarrow> string \<Rightarrow> string" where
  "failed_with_logs_message rt returncode stderr_output_file stdout_output_file =
     tool_name rt @ '' failed with exit code '' @ str_int returncode
     @ '', output of the command is in the '' @ stderr_output_file @ '' and '' @ stdout_output_file"

definition failed_message :: "run_tool \<Rightarrow> int \<Rightarrow> string" where
  "failed_message rt returncode = tool_name rt @ '' failed with exit code '' @ str_int returncode"

text \<open>
  What follows a non-zero exit code without a custom handler: with two log names, the
  hints of the two logs are printed (an exception of the generator passes on) and
  \<open>FatalError\<close> is raised with the names; otherwise \<open>FatalError\<close> with the exit code alone.
\<close>

definition report_failure ::
    "(string \<Rightarrow> string \<Rightarrow> re_result) \<Rightarrow> hint_rule list \<Rightarrow> run_tool \<Rightarrow> world \<Rightarrow> int
       \<Rightarrow> string option \<Rightarrow> string option \<Rightarrow> event list \<times> py_exc" where
  "report_failure search db rt w returncode stderr_output_file stdout_output_file =
     (if truthy stderr_output_file \<and> truthy stdout_output_file then
        (case generate_hints search db w [str_of stderr_output_file, str_of stdout_output_file] of
           (hs, r) \<Rightarrow>
             (Hint_scan [str_of stderr_output_file, str_of stdout_output_file] # map Yellow_print hs,
              (case r of
                 Some e \<Rightarrow> e
               | None \<Rightarrow> FatalError (failed_with_logs_message rt returncode
                            (str_of stderr_output_file) (str_of stdout_output_file)))))
      else ([], FatalError (failed_message rt returncode)))"

text \<open>
  \<open>RunTool.__call__\<close>: the events of the call, the exception it raises (\<open>None\<close> when it
  returns) and the world after it.  The parameters are the regular expression search,
  the loaded \<open>hints.yml\<close>, \<open>os.mkdir\<close> and the launch of the process.
\<close>

definition RunTool_call ::
    "(string \<Rightarrow> string \<Rightarrow> re_result) \<Rightarrow> hint_rule list \<Rightarrow> (world \<Rightarrow> string \<Rightarrow> py_exc + world)
       \<Rightarrow> (run_tool \<Rightarrow> world \<Rightarrow> proc \<times> world)
       \<Rightarrow> run_tool \<Rightarrow> world \<Rightarrow> event list \<times> py_exc option \<times> world" where
  "RunTool_call search db mkdir launch rt w =
     (case (if hints rt then run_command mkdir launch rt w else run_plain launch rt w) of
        (Inl e, w2) \<Rightarrow> (announce rt, Some e, w2)
      | (Inr (returncode, stderr_output_file, stdout_output_file), w2) \<Rightarrow>
          if returncode = 0 then (announce rt, None, w2)
          else
            (case custom_error_handler rt of
               Some handler \<Rightarrow>
                 (announce rt @ [Handler_called returncode stderr_output_file stdout_output_file],
                  handler returncode stderr_output_file stdout_output_file, w2)
             | None \<Rightarrow>
                 (case report_failure search db rt w2 returncode stderr_output_file
                         stdout_output_file of
                    (evs, e) \<Rightarrow> (announce rt @ evs, Some e, w2))))"


section \<open>BuildDirectoryManager\<close>

text \<open>
  \<open>GENERATORS\<close> of \<open>constants.py\<close> is a parameter: the generators in their order, each
  with its name and its version command.
\<close>

definition executable_exists :: "world \<Rightarrow> string list \<Rightarrow> bool" where
  "executable_exists w cmd = runs w cmd"

definition no_generator_message :: "string \<Rightarrow> string" where
  "no_generator_message prog_name =
     ''To use '' @ prog_name @ '', either the 'ninja' or 'GNU make' build tool must be ''
     @ ''available in the PATH''"

fun detect_cmake_generator ::
    "(string \<times> string list) list \<Rightarrow> world \<Rightarrow> string \<Rightarrow> py_exc + string" where
  "detect_cmake_generator [] w prog_name = Inl (FatalError (no_generator_message prog_name))"
| "detect_cmake_generator ((generator_name, version) # gs) w prog_name =
     (if executable_exists w version then Inr generator_name
      else detect_cmake_generator gs w prog_name)"

text \<open>\<open>PROG\<close>, the name of the program, read from the environment when the module loads.\<close>

definition PROG :: "world \<Rightarrow> string" where
  "PROG w = (case environ w ''IDF_PY_PROGRAM_NAME'' of None \<Rightarrow> ''idf.py'' | Some p \<Rightarrow> p)"

text \<open>
  \<open>debug_print_idf_version\<close>, for what it raises: \<open>idf_version\<close> reads \<open>IDF_PATH\<close> from
  the environment (\<open>KeyError\<close> when it is not set) and asks \<open>git\<close> for the version;
  \<open>CalledProcessError\<close> and \<open>UnicodeError\<close> are caught and the version is then read from
  \<open>version.cmake\<close>, which raises nothing further; any other exception of the call of
  \<open>git\<close> passes on.  \<open>check_output\<close> is the answer of \<open>subprocess.check_output\<close> to a
  command: its output, or the exception it raises.  The line printed is left out.
\<close>

definition git_describe_cmd :: "string \<Rightarrow> string list" where
  "git_describe_cmd idf_path =
     [''git'', ''--git-dir='' @ path_join idf_path ''.git'', ''--work-tree='' @ idf_path,
      ''describe'', ''--tags'', ''--dirty'', ''--match'', ''v*.*'']"

definition debug_print_idf_version ::
    "(string list \<Rightarrow> py_exc + string) \<Rightarrow> world \<Rightarrow> py_exc option" where
  "debug_print_idf_version check_output w =
     (case environ w ''IDF_PATH'' of
        None \<Rightarrow> Some (KeyError ''IDF_PATH'')
      | Some idf_path \<Rightarrow>
          (case check_output (git_describe_cmd idf_path) of
             Inr version \<Rightarrow> None
           | Inl e \<Rightarrow> if e = CalledProcessError \<or> e = UnicodeError then None else Some e))"

text \<open>
  \<open>os.makedirs\<close> of a path that is no directory: \<open>FileNotFoundError\<close> for the empty path,
  \<open>FileExistsError\<close> when the path is a regular file; otherwise the directory is made.
  Permissions and an ancestor of the path that is a regular file are not part of the
  world.
\<close>

definition os_makedirs :: "world \<Rightarrow> string \<Rightarrow> py_exc + world" where
  "os_makedirs w p =
     (if p = [] then Inl (FileNotFoundError p)
      else if files w p \<noteq> None then Inl (FileExistsError p)
      else Inr (w\<lparr>is_dir := (is_dir w)(p := True)\<rparr>))"

text \<open>
  The first part of \<open>ensure_build_directory\<close>, up to the entry \<open>CCACHE_ENABLE\<close>: the
  checks of \<open>cmake\<close> and of the project directory, the build directory made when it is
  missing, the cache parsed, the target resolved.  It gives the raised exception
  (\<open>None\<close> when it goes on), and the \<open>args\<close> and the world as they are then.
\<close>

definition prepare ::
    "(string list \<Rightarrow> py_exc + string) \<Rightarrow> world \<Rightarrow> args \<Rightarrow> string
       \<Rightarrow> py_exc option \<times> args \<times> world" where
  "prepare check_output w a prog_name =
     (if \<not> executable_exists w [''cmake'', ''--version''] then
        (case debug_print_idf_version check_output w of
           Some e \<Rightarrow> (Some e, a, w)
         | None \<Rightarrow>
             (Some (FatalError ([DQ] @ ''cmake'' @ [DQ] @ '' must be available on the PATH to use ''
                      @ PROG w)), a, w))
      else if \<not> is_dir w (project_dir a) then
        (if \<not> path_exists w (project_dir a)
         then (Some (FatalError (''Project directory '' @ project_dir a @ '' does not exist'')), a, w)
         else (Some (FatalError (project_dir a @ '' must be a project directory'')), a, w))
      else if \<not> path_exists w (path_join (project_dir a) ''CMakeLists.txt'') then
        (Some (FatalError (''CMakeLists.txt not found in project directory '' @ project_dir a)),
         a, w)
      else
        (case (if \<not> is_dir w (build_dir a) then os_makedirs w (build_dir a) else Inr w) of
           Inl e \<Rightarrow> (Some e, a, w)
         | Inr w1 \<Rightarrow>
             (case guess_or_check_idf_target w1 a prog_name (load_cache w1 a) of
                Inl e \<Rightarrow> (Some e, a, w1)
              | Inr a1 \<Rightarrow>
                  (None,
                   a1\<lparr>define_cache_entry :=
                         define_cache_entry a1
                           @ [''CCACHE_ENABLE='' @ (if ccache a1 then ''1'' else ''0'')]\<rparr>,
                   w1))))"

text \<open>The command line of the configure step, for the resolved generator.\<close>

definition cmake_args :: "world \<Rightarrow> args \<Rightarrow> string \<Rightarrow> string list" where
  "cmake_args w a gen =
     [''cmake'', ''-G'', gen, ''-DPYTHON_DEPS_CHECKED=1'', ''-DPYTHON='' @ sys_executable w,
      ''-DESP_PLATFORM=1'']
     @ (if cmake_warn_uninitialized a then [''--warn-uninitialized''] else [])
     @ (if define_cache_entry a \<noteq> [] then map (\<lambda>d. ''-D'' @ d) (define_cache_entry a) else [])
     @ [project_dir a]"

text \<open>
  The \<open>RunTool\<close> object of the configure step; its constructor takes the directory of
  the logs to be \<open>build_dir or cwd\<close>, and no \<open>build_dir\<close> is passed here.
\<close>

definition build_dir_or_cwd :: "string option \<Rightarrow> string \<Rightarrow> string" where
  "build_dir_or_cwd b c = (if truthy b then str_of b else c)"

definition cmake_tool :: "world \<Rightarrow> args \<Rightarrow> string \<Rightarrow> run_tool" where
  "cmake_tool w a gen =
     \<lparr>tool_name = ''cmake'', tool_args = cmake_args w a gen, cwd = build_dir a, env = None,
      custom_error_handler = None, rt_build_dir = build_dir_or_cwd None (build_dir a),
      hints = (\<not> no_hints a), force_progression = False, interactive = False\<rparr>"

text \<open>
  The \<open>try\<close> block of the configure step.  \<open>run\<close> is the call of a \<open>RunTool\<close> object: the
  exception it raises, if any, and the world after it.  The handler is
  \<open>except Exception\<close>: it removes the cache file when the path exists and raises again.
\<close>

definition run_cmake ::
    "(run_tool \<Rightarrow> world \<Rightarrow> py_exc option \<times> world) \<Rightarrow> world \<Rightarrow> args \<Rightarrow> string
       \<Rightarrow> py_exc option \<times> world" where
  "run_cmake run w a gen =
     (case run (cmake_tool w a gen) w of
        (None, w2) \<Rightarrow> (None, w2)
      | (Some e, w2) \<Rightarrow>
          if is_Exception e then (Some e, w2\<lparr>files := (files w2)(cache_path a := None)\<rparr>)
          else (Some e, w2))"

text \<open>
  The configure step: entered when the caller forces it or the proposed entries would
  change the cache; the generator is detected when none is given (before the \<open>try\<close>).
\<close>

definition configure ::
    "(run_tool \<Rightarrow> world \<Rightarrow> py_exc option \<times> world) \<Rightarrow> (string \<times> string list) list
       \<Rightarrow> world \<Rightarrow> args \<Rightarrow> string \<Rightarrow> bool \<Rightarrow> py_exc option \<times> args \<times> world" where
  "configure run generators w a prog_name always_run_cmake =
     (case (if always_run_cmake then Inr True
            else new_cmakecache_entries (files w (cache_path a)) (define_cache_entry a)) of
        Inl e \<Rightarrow> (Some e, a, w)
      | Inr False \<Rightarrow> (None, a, w)
      | Inr True \<Rightarrow>
          (case (case generator a of
                   None \<Rightarrow> detect_cmake_generator generators w prog_name
                 | Some g \<Rightarrow> Inr g) of
             Inl e \<Rightarrow> (Some e, a, w)
           | Inr gen \<Rightarrow>
               (case run_cmake run w (a\<lparr>generator := Some gen\<rparr>) gen of
                  (r, w2) \<Rightarrow> (r, a\<lparr>generator := Some gen\<rparr>, w2))))"

text \<open>The checks of the refreshed cache that end \<open>ensure_build_directory\<close>.\<close>

definition generator_mismatch_message :: "string \<Rightarrow> string \<Rightarrow> string \<Rightarrow> string" where
  "generator_mismatch_message gen given prog_name =
     ''Build is configured for generator '' @ quoted gen @ '' not '' @ quoted given
     @ ''. Run '' @ quoted (prog_name @ '' fullclean'') @ '' to start again.''"

definition home_mismatch_message :: "string \<Rightarrow> string \<Rightarrow> string \<Rightarrow> string \<Rightarrow> string" where
  "home_mismatch_message bdir home proj prog_name =
     ''Build directory '' @ quoted bdir @ '' configured for project '' @ quoted home
     @ '' not '' @ quoted proj @ ''. Run '' @ quoted (prog_name @ '' fullclean'')
     @ '' to start again.''"

definition python_mismatch_message :: "string \<Rightarrow> string \<Rightarrow> string \<Rightarrow> string" where
  "python_mismatch_message active python prog_name =
     quoted active @ '' is currently active in the environment while the project was ''
     @ ''configured with '' @ quoted python @ ''. Run '' @ quoted (prog_name @ '' fullclean'')
     @ '' to start again.''"

definition check_configured ::
    "(string \<times> string list) list \<Rightarrow> world \<Rightarrow> args \<Rightarrow> string \<Rightarrow> py_exc option \<times> args" where
  "check_configured generators w a prog_name =
     (let cache = load_cache w a in
      case (case map_of cache ''CMAKE_GENERATOR'' of
              None \<Rightarrow> detect_cmake_generator generators w prog_name
            | Some g \<Rightarrow> Inr g) of
        Inl e \<Rightarrow> (Some e, a)
      | Inr gen \<Rightarrow>
          (let a1 = (if generator a = None then a\<lparr>generator := Some gen\<rparr> else a) in
           if Some gen \<noteq> generator a1 then
             (Some (FatalError (generator_mismatch_message gen (str_of (generator a1)) prog_name)),
              a1)
           else if (case map_of cache ''CMAKE_HOME_DIRECTORY'' of
                      None \<Rightarrow> False
                    | Some home_dir \<Rightarrow> realpath w home_dir \<noteq> realpath w (project_dir a1)) then
             (Some (FatalError (home_mismatch_message (build_dir a1)
                      (realpath w (str_of (map_of cache ''CMAKE_HOME_DIRECTORY'')))
                      (realpath w (project_dir a1)) prog_name)), a1)
           else if (case map_of cache ''PYTHON'' of
                      None \<Rightarrow> False
                    | Some python \<Rightarrow> python \<noteq> sys_executable w) then
             (Some (FatalError (python_mismatch_message (sys_executable w)
                      (str_of (map_of cache ''PYTHON'')) prog_name)), a1)
           else (None, a1)))"

text \<open>
  \<open>ensure_build_directory\<close>: the exception it raises (\<open>None\<close> when it returns), and the
  \<open>args\<close> and the world as it leaves them.  The parameters are the answers of
  \<open>subprocess.check_output\<close>, the call of a \<open>RunTool\<close> object and \<open>GENERATORS\<close>.
\<close>

definition ensure_build_directory ::
    "(string list \<Rightarrow> py_exc + string) \<Rightarrow> (run_tool \<Rightarrow> world \<Rightarrow> py_exc option \<times> world)
       \<Rightarrow> (string \<times> string list) list
       \<Rightarrow> world \<Rightarrow> args \<Rightarrow> string \<Rightarrow> bool \<Rightarrow> py_exc option \<times> args \<times> world" where
  "ensure_build_directory check_output run generators w a prog_name always_run_cmake =
     (case prepare check_output w a prog_name of
        (Some e, a1, w1) \<Rightarrow> (Some e, a1, w1)
      | (None, a1, w1) \<Rightarrow>
          (case configure run generators w1 a1 prog_name always_run_cmake of
             (Some e, a2, w2) \<Rightarrow> (Some e, a2, w2)
           | (None, a2, w2) \<Rightarrow>
               (case check_configured generators w2 a2 prog_name of
                  (r, a3) \<Rightarrow> (r, a3, w2))))"



text \<open>What a call raised, and the text of a file as the call left it.\<close>

definition raised_and_file ::
    "py_exc option \<times> args \<times> world \<Rightarrow> string \<Rightarrow> py_exc option \<times> string option" where
  "raised_and_file r p = (fst r, files (snd (snd r)) p)"

section \<open>Properties of the CacheStore\<close>

subsection \<open>Stripping\<close>

lemma rstrip_clean: "rstrip s = [] \<or> \<not> isspace (last (rstrip s))"
proof (cases "dropWhile isspace (rev s)")
  case Nil
  then show ?thesis by (simp add: rstrip_def)
next
  case (Cons a as)
  then have "\<not> isspace a" using hd_dropWhile[of isspace "rev s"] by simp
  then show ?thesis using Cons by (simp add: rstrip_def)
qed

lemma rstrip_id: "s = [] \<or> \<not> isspace (last s) \<Longrightarrow> rstrip s = s"
  unfolding rstrip_def
  by (cases s rule: rev_cases) auto

lemma set_rstrip: "set (rstrip s) \<subseteq> set s"
  unfolding rstrip_def using set_dropWhileD by fastforce

lemma length_rstrip: "length (rstrip s) \<le> length s"
  unfolding rstrip_def using length_dropWhile_le[of isspace "rev s"] by simp

lemma isspace_NL [simp]: "isspace NL"
  by (simp add: isspace_def)

lemma set_butlast_tl: "x \<in> set (butlast (tl b)) \<Longrightarrow> x \<in> set b"
  by (cases b) (auto dest: in_set_butlastD)

text \<open>A de-quoted value holds no newline and does not end with white space.\<close>

lemma strip_quotes_result:
  assumes "strip_quotes v = Some r"
  shows "NL \<notin> set r \<and> (r = [] \<or> \<not> isspace (last r))"
proof -
  obtain x where x: "r = rstrip x" "NL \<notin> set x"
    using assms set_butlast_tl[of NL "chop_nl v"]
    by (auto simp: strip_quotes_def Let_def split: if_splits)
  then show ?thesis using rstrip_clean[of x] set_rstrip[of x] by auto
qed

lemma strip_quotes_clean:
  assumes "NL \<notin> set r" "r = [] \<or> \<not> isspace (last r)"
  shows "strip_quotes r =
     (if wrapped DQ r \<or> wrapped SQ r then Some (rstrip (butlast (tl r))) else Some r)"
proof -
  have "chop_nl r = r" using assms by (auto simp: chop_nl_def)
  then show ?thesis using assms rstrip_id[of r] by (simp add: strip_quotes_def)
qed

lemma inner_shorter: "2 \<le> length r \<Longrightarrow> rstrip (butlast (tl r)) \<noteq> r"
proof
  assume a: "2 \<le> length r" and b: "rstrip (butlast (tl r)) = r"
  have "length (rstrip (butlast (tl r))) \<le> length r - 2"
    using length_rstrip[of "butlast (tl r)"] by simp
  with a b show False by simp
qed

text \<open>
  Claim C7, as stated: de-quoting a de-quoted value returns it unchanged, for every
  value.  It fails: \<open>_strip_quotes\<close> takes off one pair of quotes, so the value
  \<^verbatim>\<open>""a""\<close> de-quotes to \<^verbatim>\<open>"a"\<close>, and that de-quotes to \<open>a\<close>.
\<close>

theorem strip_quotes_not_idempotent:
  "strip_quotes [DQ, DQ, CHR ''a'', DQ, DQ] = Some [DQ, CHR ''a'', DQ]
   \<and> strip_quotes [DQ, CHR ''a'', DQ] \<noteq> Some [DQ, CHR ''a'', DQ]"
  by code_simp

text \<open>
  Claim C7, amended: when \<open>_strip_quotes\<close> returns a value \<open>r\<close>, de-quoting \<open>r\<close> again
  returns \<open>r\<close> unchanged exactly when \<open>r\<close> is not itself wrapped in a pair of double
  quotes or a pair of single quotes.
\<close>

theorem strip_quotes_twice:
  "strip_quotes v = Some r \<Longrightarrow>
     (strip_quotes r = Some r) = (\<not> wrapped DQ r \<and> \<not> wrapped SQ r)"
  using strip_quotes_result[of v r] strip_quotes_clean[of r] inner_shorter[of r]
  by (auto simp: wrapped_def)

theorem strip_quotes_twice_witness:
  "strip_quotes ([DQ] @ ''a b  '' @ [DQ]) = Some ''a b''
   \<and> (strip_quotes ''a b'' = Some ''a b'') = (\<not> wrapped DQ ''a b'' \<and> \<not> wrapped SQ ''a b'')"
proof -
  have h: "strip_quotes ([DQ] @ ''a b  '' @ [DQ]) = Some ''a b''" by code_simp
  show ?thesis using h strip_quotes_twice[OF h] by simp
qed

subsection \<open>Detecting a change\<close>

lemma entries_differ_eq:
  "\<forall>e \<in> set es. CHR ''='' \<in> set e \<Longrightarrow>
   entries_differ c es = Inr (\<not> list_all (entry_unchanged c) es)"
  by (induction es) (auto simp: split_entry_def entry_unchanged_def split: option.splits)

text \<open>
  Claim C1, as stated: for an existing cache file, \<open>would_change\<close> is false if and only
  if every proposed key is in the snapshot with an equal value, both values de-quoted.
  It fails: the stored value is compared as it was parsed.  The cache line
  \<^verbatim>\<open>K:STRING="a"\<close> and the proposed entry \<^verbatim>\<open>K="a"\<close> have the same key and the same
  de-quoted value \<open>a\<close>, and \<open>_new_cmakecache_entries\<close> returns \<open>True\<close>.
\<close>

theorem would_change_stored_not_dequoted:
  "new_cmakecache_entries (Some (''K:STRING='' @ [DQ, CHR ''a'', DQ, NL]))
       [''K='' @ [DQ, CHR ''a'', DQ]] = Inr True
   \<and> entry_key (''K='' @ [DQ, CHR ''a'', DQ]) = ''K''
   \<and> entry_value (''K='' @ [DQ, CHR ''a'', DQ]) = [DQ, CHR ''a'', DQ]
   \<and> map_of (parse_cmakecache (''K:STRING='' @ [DQ, CHR ''a'', DQ, NL])) ''K''
       = Some [DQ, CHR ''a'', DQ]
   \<and> strip_quotes [DQ, CHR ''a'', DQ] = Some ''a''"
  by code_simp

text \<open>
  Claim C1, amended: for every existing cache file and every list of proposed
  \<open>KEY=VALUE\<close> entries, \<open>_new_cmakecache_entries\<close> returns false if and only if every
  proposed key is in the parsed snapshot and the de-quoted proposed value equals the
  stored value as it was parsed (the stored value is not de-quoted).
\<close>

theorem would_change_iff:
  "\<forall>e \<in> set es. CHR ''='' \<in> set e \<Longrightarrow>
   new_cmakecache_entries (Some t) es =
     Inr (\<not> (\<forall>e \<in> set es. entry_unchanged (parse_cmakecache t) e))"
  using entries_differ_eq[of es "parse_cmakecache t"]
  by (cases es) (simp_all add: new_cmakecache_entries_def list_all_iff)

theorem would_change_iff_witness:
  "new_cmakecache_entries (Some (''K:STRING=a'' @ [NL] @ ''L:BOOL=b'' @ [NL]))
        [''K=a '', ''L='' @ [DQ, CHR ''b'', DQ]] = Inr False
   \<and> entry_unchanged (parse_cmakecache (''K:STRING=a'' @ [NL] @ ''L:BOOL=b'' @ [NL])) ''K=a ''
   \<and> entry_unchanged (parse_cmakecache (''K:STRING=a'' @ [NL] @ ''L:BOOL=b'' @ [NL]))
        (''L='' @ [DQ, CHR ''b'', DQ])"
proof -
  have h: "\<forall>e \<in> set [''K=a '', ''L='' @ [DQ, CHR ''b'', DQ]]. CHR ''='' \<in> set e" by simp
  have r: "new_cmakecache_entries (Some (''K:STRING=a'' @ [NL] @ ''L:BOOL=b'' @ [NL]))
        [''K=a '', ''L='' @ [DQ, CHR ''b'', DQ]] = Inr False" by code_simp
  have "Inr False = (Inr (\<not> (\<forall>e \<in> set [''K=a '', ''L='' @ [DQ, CHR ''b'', DQ]].
        entry_unchanged (parse_cmakecache (''K:STRING=a'' @ [NL] @ ''L:BOOL=b'' @ [NL])) e))
        :: py_exc + bool)"
    using would_change_iff[OF h, of "''K:STRING=a'' @ [NL] @ ''L:BOOL=b'' @ [NL]"]
    unfolding r .
  then have u: "\<forall>e \<in> set [''K=a '', ''L='' @ [DQ, CHR ''b'', DQ]].
        entry_unchanged (parse_cmakecache (''K:STRING=a'' @ [NL] @ ''L:BOOL=b'' @ [NL])) e"
    by (simp only: sum.inject not_not simp_thms)
  have m1: "''K=a '' \<in> set [''K=a '', ''L='' @ [DQ, CHR ''b'', DQ]]"
    by (rule list.set_intros(1))
  have m2: "''L='' @ [DQ, CHR ''b'', DQ] \<in> set [''K=a '', ''L='' @ [DQ, CHR ''b'', DQ]]"
    by (rule list.set_intros(2), rule list.set_intros(1))
  from r bspec[OF u m1] bspec[OF u m2] show ?thesis by (intro conjI)
qed

subsection \<open>What the parser records\<close>

lemma lines_acc_no_nl:
  "NL \<notin> set l \<Longrightarrow> lines_acc cur l = (if cur @ l = [] then [] else [cur @ l])"
  by (induction l arbitrary: cur) auto

lemma lines_acc_append:
  "lines_acc cur (t @ NL # l) = lines_acc cur (t @ [NL]) @ lines_acc [] l"
  by (induction t arbitrary: cur) auto

lemma parse_lines_append: "parse_lines r (xs @ ys) = parse_lines (parse_lines r xs) ys"
  by (induction xs arbitrary: r) (auto split: option.splits)

lemma match_cache_line_Some:
  assumes "match_cache_line line = Some (k, v)"
  shows "k \<noteq> [] \<and> (\<forall>c \<in> set k. c \<notin> {CHR ''#'', CHR ''/'', CHR '':'', CHR ''=''})
     \<and> line \<noteq> [] \<and> last line = NL
     \<and> (\<exists>ty nls. ty \<noteq> [] \<and> line = k @ '':'' @ ty @ ''='' @ v @ nls
           \<and> (nls = [NL] \<or> nls = [NL, NL]))"
proof -
  from assms obtain r2 r4 r5 where
    k: "k = takeWhile name_char line" "k \<noteq> []" and
    r1: "dropWhile name_char line = CHR '':'' # r2" and
    ty: "takeWhile type_char r2 \<noteq> []" and
    r3: "dropWhile type_char r2 = CHR ''='' # r4" and
    v: "v = takeWhile (\<lambda>c. c \<noteq> NL) r4" and
    r5: "r5 = dropWhile (\<lambda>c. c \<noteq> NL) r4" "r5 = [NL] \<or> r5 = [NL, NL]"
    by (auto simp: match_cache_line_def Let_def split: list.splits if_splits)
  have l1: "line = k @ CHR '':'' # r2"
    using takeWhile_dropWhile_id[of name_char line] k r1 by simp
  have l2: "r2 = takeWhile type_char r2 @ CHR ''='' # r4"
    using takeWhile_dropWhile_id[of type_char r2] r3 by simp
  have l3: "r4 = v @ r5"
    using takeWhile_dropWhile_id[of "\<lambda>c. c \<noteq> NL" r4] v r5 by simp
  have line: "line = k @ '':'' @ takeWhile type_char r2 @ ''='' @ v @ r5"
    using l1 l2 l3 by simp
  have kc: "\<forall>c \<in> set k. name_char c"
    using k(1) by (auto dest: set_takeWhileD)
  have "last line = NL" using line r5(2) by auto
  moreover have "line \<noteq> []" using l1 by simp
  ultimately show ?thesis using k(2) kc ty line r5(2) unfolding name_char_def by blast
qed

lemma map_of_parse_lines:
  "map_of (parse_lines r ls) k = Some v \<Longrightarrow>
   map_of r k = Some v \<or> (\<exists>line \<in> set ls. match_cache_line line = Some (k, v))"
proof (induction ls arbitrary: r)
  case Nil
  then show ?case by simp
next
  case (Cons l ls)
  show ?case
  proof (cases "match_cache_line l")
    case None
    then show ?thesis using Cons by auto
  next
    case (Some kv)
    obtain k' v' where kv: "kv = (k', v')" by (cases kv)
    from Cons.prems Some kv
    have "map_of (parse_lines (AList.update k' v' r) ls) k = Some v" by simp
    from Cons.IH[OF this]
    have "((map_of r)(k' \<mapsto> v')) k = Some v
        \<or> (\<exists>line \<in> set ls. match_cache_line line = Some (k, v))"
      by (simp add: update_conv')
    then show ?thesis using Some kv by (auto split: if_splits)
  qed
qed

lemma unterminated_no_match: "NL \<notin> set line \<Longrightarrow> match_cache_line line = None"
proof (cases "match_cache_line line")
  case None
  then show ?thesis by simp
next
  case (Some kv)
  assume nl: "NL \<notin> set line"
  obtain k v where "kv = (k, v)" by (cases kv)
  with Some have "line \<noteq> [] \<and> last line = NL"
    using match_cache_line_Some[of line k v] by simp
  then have "NL \<in> set line" using last_in_set[of line] by auto
  with nl show ?thesis by simp
qed

lemma file_lines_last:
  assumes "NL \<notin> set l" "t = [] \<or> last t = NL"
  shows "file_lines (t @ l) = file_lines t @ (if l = [] then [] else [l])"
proof (cases t rule: rev_cases)
  case Nil
  then show ?thesis using assms by (simp add: file_lines_def lines_acc_no_nl)
next
  case (snoc t' c)
  then show ?thesis using assms lines_acc_append[of "[]" t' l]
    by (simp add: file_lines_def lines_acc_no_nl)
qed

lemma parse_unterminated:
  "NL \<notin> set l \<Longrightarrow> t = [] \<or> last t = NL \<Longrightarrow>
   parse_cmakecache (t @ l) = parse_cmakecache t"
  by (simp add: parse_cmakecache_def file_lines_last parse_lines_append unterminated_no_match)

text \<open>
  Claim C10: \<open>_parse_cmakecache\<close> records only lines that end with a newline and whose
  name holds none of \<open>#\<close>, \<open>/\<close>, \<open>:\<close>, \<open>=\<close>: every key \<open>k\<close> the snapshot maps to \<open>v\<close> comes
  from a line \<open>k:TYPE=v\<close> of the file that ends with a newline.  A last line without a
  newline adds nothing to the snapshot, whatever it holds.  So \<open>would_change\<close> can be
  true for a proposed entry whose key stands on such a line: for the file \<open>K:STRING=v\<close>
  without a final newline and the proposed entry \<open>K=v\<close> it is true.
\<close>

theorem parse_needs_newline:
  "(map_of (parse_cmakecache t) k = Some v \<longrightarrow>
      k \<noteq> [] \<and> (\<forall>c \<in> set k. c \<notin> {CHR ''#'', CHR ''/'', CHR '':'', CHR ''=''})
      \<and> (\<exists>line \<in> set (file_lines t). line \<noteq> [] \<and> last line = NL
           \<and> (\<exists>ty nls. ty \<noteq> [] \<and> line = k @ '':'' @ ty @ ''='' @ v @ nls)))
   \<and> (NL \<notin> set l \<and> (t = [] \<or> last t = NL) \<longrightarrow>
        parse_cmakecache (t @ l) = parse_cmakecache t)
   \<and> parse_cmakecache ''K:STRING=v'' = []
   \<and> new_cmakecache_entries (Some ''K:STRING=v'') [''K=v''] = Inr True"
proof (intro conjI impI)
  assume "map_of (parse_cmakecache t) k = Some v"
  then obtain line where l: "line \<in> set (file_lines t)" "match_cache_line line = Some (k, v)"
    using map_of_parse_lines[of "[]" "file_lines t" k v] by (auto simp: parse_cmakecache_def)
  note m = match_cache_line_Some[OF l(2)]
  show "k \<noteq> []" using m by (rule conjunct1)
  show "\<forall>c \<in> set k. c \<notin> {CHR ''#'', CHR ''/'', CHR '':'', CHR ''=''}"
    using m by (elim conjE)
  have "line \<noteq> [] \<and> last line = NL
           \<and> (\<exists>ty nls. ty \<noteq> [] \<and> line = k @ '':'' @ ty @ ''='' @ v @ nls)"
    using m by blast
  with l(1) show "\<exists>line \<in> set (file_lines t). line \<noteq> [] \<and> last line = NL
           \<and> (\<exists>ty nls. ty \<noteq> [] \<and> line = k @ '':'' @ ty @ ''='' @ v @ nls)"
    by (rule bexI[rotated])
next
  assume "NL \<notin> set l \<and> (t = [] \<or> last t = NL)"
  then show "parse_cmakecache (t @ l) = parse_cmakecache t"
    using parse_unterminated[of l t] by (elim conjE)
next
  show "parse_cmakecache ''K:STRING=v'' = []" by code_simp
next
  show "new_cmakecache_entries (Some ''K:STRING=v'') [''K=v''] = Inr True" by code_simp
qed

theorem parse_needs_newline_witness:
  "map_of (parse_cmakecache (''K:STRING=v'' @ [NL])) ''K'' = Some ''v''
   \<and> (\<exists>line \<in> set (file_lines (''K:STRING=v'' @ [NL])). line \<noteq> [] \<and> last line = NL
           \<and> (\<exists>ty nls. ty \<noteq> [] \<and> line = ''K'' @ '':'' @ ty @ ''='' @ ''v'' @ nls))
   \<and> NL \<notin> set ''L:BOOL=1'' \<and> last (''K:STRING=v'' @ [NL]) = NL
   \<and> parse_cmakecache ((''K:STRING=v'' @ [NL]) @ ''L:BOOL=1'') = [(''K'', ''v'')]"
proof -
  have h1: "map_of (parse_cmakecache (''K:STRING=v'' @ [NL])) ''K'' = Some ''v''" by code_simp
  have h2: "NL \<notin> set ''L:BOOL=1''" by simp
  have h3: "last (''K:STRING=v'' @ [NL]) = NL" by simp
  have h4: "parse_cmakecache (''K:STRING=v'' @ [NL]) = [(''K'', ''v'')]" by code_simp
  note T = parse_needs_newline[of "''K:STRING=v'' @ [NL]" "''K''" "''v''" "''L:BOOL=1''"]
  have a: "\<exists>line \<in> set (file_lines (''K:STRING=v'' @ [NL])). line \<noteq> [] \<and> last line = NL
           \<and> (\<exists>ty nls. ty \<noteq> [] \<and> line = ''K'' @ '':'' @ ty @ ''='' @ ''v'' @ nls)"
    using T[THEN conjunct1, THEN mp, OF h1] by (elim conjE)
  have "parse_cmakecache ((''K:STRING=v'' @ [NL]) @ ''L:BOOL=1'')
      = parse_cmakecache (''K:STRING=v'' @ [NL])"
    using T[THEN conjunct2, THEN conjunct1, THEN mp, OF conjI[OF h2 disjI2[OF h3]]] .
  then have b: "parse_cmakecache ((''K:STRING=v'' @ [NL]) @ ''L:BOOL=1'') = [(''K'', ''v'')]"
    using h4 by (rule trans)
  from h1 a h2 h3 b show ?thesis by (intro conjI)
qed

section \<open>Properties of the progress line\<close>

text \<open>
  Claim C9: for every input string and every reported terminal width,
  \<open>fit_text_in_terminal\<close> returns a string no longer than the width.  The cases are
  taken in the order of the code: exactly \<open>width\<close> dots when the width is at most 3;
  else the input unchanged when it is strictly shorter than the width; and otherwise the
  first and the last \<open>(width - 3) div 2\<close> characters of the input around three dots, a
  string of length \<open>2 * ((width - 3) div 2) + 3\<close>.
\<close>

theorem fit_text_in_terminal_length:
  "length (fit_text_in_terminal w out) \<le> w
   \<and> (w \<le> 3 \<longrightarrow> fit_text_in_terminal w out = replicate w (CHR ''.''))
   \<and> (3 < w \<and> length out < w \<longrightarrow> fit_text_in_terminal w out = out)
   \<and> (3 < w \<and> w \<le> length out \<longrightarrow>
        fit_text_in_terminal w out
          = take ((w - 3) div 2) out @ ''...'' @ drop (length out - (w - 3) div 2) out
        \<and> length (fit_text_in_terminal w out) = 2 * ((w - 3) div 2) + 3)"
proof -
  have e: "3 < w \<Longrightarrow> w \<le> length out \<Longrightarrow>
      fit_text_in_terminal w out
        = take ((w - 3) div 2) out @ ''...'' @ drop (length out - (w - 3) div 2) out"
  proof -
    assume a: "3 < w" "w \<le> length out"
    then have le: "(w - 3) div 2 \<le> length out" by simp
    then have "nat (int (length out) - int ((w - 3) div 2)) = length out - (w - 3) div 2"
      by (simp add: nat_diff_distrib')
    then show ?thesis using a le
      by (simp add: fit_text_in_terminal_def slice_to_def slice_from_def Let_def)
  qed
  have l: "3 < w \<Longrightarrow> w \<le> length out \<Longrightarrow>
      length (take ((w - 3) div 2) out @ ''...'' @ drop (length out - (w - 3) div 2) out)
        = 2 * ((w - 3) div 2) + 3"
  proof -
    assume a: "3 < w" "w \<le> length out"
    then have le: "(w - 3) div 2 \<le> length out" by simp
    have "length (take ((w - 3) div 2) out) = (w - 3) div 2"
      using le by simp
    moreover have "length (drop (length out - (w - 3) div 2) out) = (w - 3) div 2"
      using le by simp
    ultimately show ?thesis by simp
  qed
  have s: "\<not> 3 < w \<or> length out < w \<Longrightarrow> length (fit_text_in_terminal w out) \<le> w"
    by (auto simp: fit_text_in_terminal_def)
  have "length (fit_text_in_terminal w out) \<le> w"
  proof (cases "3 < w \<and> w \<le> length out")
    case True
    then have "length (fit_text_in_terminal w out) = 2 * ((w - 3) div 2) + 3"
      using e l by simp
    moreover have "2 * ((w - 3) div 2) + 3 \<le> w" using True by presburger
    ultimately show ?thesis by simp
  next
    case False
    then show ?thesis using s by auto
  qed
  moreover have "w \<le> 3 \<longrightarrow> fit_text_in_terminal w out = replicate w (CHR ''.'')"
    by (simp add: fit_text_in_terminal_def)
  moreover have "3 < w \<and> length out < w \<longrightarrow> fit_text_in_terminal w out = out"
    by (simp add: fit_text_in_terminal_def)
  moreover have "3 < w \<and> w \<le> length out \<longrightarrow>
        fit_text_in_terminal w out
          = take ((w - 3) div 2) out @ ''...'' @ drop (length out - (w - 3) div 2) out
        \<and> length (fit_text_in_terminal w out) = 2 * ((w - 3) div 2) + 3"
  proof (intro impI conjI)
    assume a: "3 < w \<and> w \<le> length out"
    show "fit_text_in_terminal w out
          = take ((w - 3) div 2) out @ ''...'' @ drop (length out - (w - 3) div 2) out"
      using a e by blast
    then show "length (fit_text_in_terminal w out) = 2 * ((w - 3) div 2) + 3"
      using a l by presburger
  qed
  ultimately show ?thesis by (intro conjI)
qed

theorem fit_text_in_terminal_length_witness:
  "fit_text_in_terminal 8 ''[1/2] abcdef''
      = take ((8 - 3) div 2) ''[1/2] abcdef'' @ ''...''
          @ drop (length ''[1/2] abcdef'' - (8 - 3) div 2) ''[1/2] abcdef''
   \<and> length (fit_text_in_terminal 8 ''[1/2] abcdef'') = 2 * ((8 - 3) div 2) + 3
   \<and> fit_text_in_terminal 2 ''[1/2] abcdef'' = replicate 2 (CHR ''.'')
   \<and> fit_text_in_terminal 20 ''[1/2] abcdef'' = ''[1/2] abcdef''"
proof -
  have h1: "(3::nat) < 8 \<and> 8 \<le> length ''[1/2] abcdef''" by simp
  have h2: "(2::nat) \<le> 3" by simp
  have h3: "(3::nat) < 20 \<and> length ''[1/2] abcdef'' < 20" by simp
  note a = fit_text_in_terminal_length[of 8 "''[1/2] abcdef''",
      THEN conjunct2, THEN conjunct2, THEN conjunct2, THEN mp, OF h1]
  note b = fit_text_in_terminal_length[of 2 "''[1/2] abcdef''",
      THEN conjunct2, THEN conjunct1, THEN mp, OF h2]
  note c = fit_text_in_terminal_length[of 20 "''[1/2] abcdef''",
      THEN conjunct2, THEN conjunct2, THEN conjunct1, THEN mp, OF h3]
  from a b c show ?thesis by (elim conjE) (intro conjI)
qed

section \<open>Properties of the TargetResolver\<close>

lemma map_of_Nil_cache: "cache = [] \<Longrightarrow> map_of cache k = None"
  by simp

text \<open>
  Claim C2: for every combination of the four target candidates, one call of
  \<open>_guess_or_check_idf_target\<close> raises at most one conflict: it raises nothing when no
  documented rule is violated, and otherwise exactly the conflict of the first violated
  rule in the documented order (environment against project configuration, environment
  against persisted cache, persisted cache against project configuration).
\<close>

theorem first_violated_rule_wins:
  "raised (guess_or_check_idf_target w a prog cache) =
     (case violated_rules (get_target w (project_dir a) ''sdkconfig'')
             (environ w ''IDF_TARGET'') (map_of cache ''IDF_TARGET'') of
        [] \<Rightarrow> None
      | r # rs \<Rightarrow> Some (conflict_of prog (get_target w (project_dir a) ''sdkconfig'')
                          (environ w ''IDF_TARGET'') (map_of cache ''IDF_TARGET'') r))"
proof (cases "cache = []")
  case True
  then have "map_of cache ''IDF_TARGET'' = None" by simp
  then show ?thesis using True
    by (simp add: guess_or_check_idf_target_def violated_rules_def raised_def Let_def truthy_def)
next
  case False
  then show ?thesis
    by (auto simp: guess_or_check_idf_target_def violated_rules_def raised_def Let_def)
qed

theorem first_violated_rule_wins_witness:
  "raised (guess_or_check_idf_target
      \<lparr>files = Map.empty(''proj/sdkconfig'' \<mapsto> ''CONFIG_IDF_TARGET='' @ [DQ] @ ''esp32s3'' @ [DQ, NL]),
       is_dir = (\<lambda>p. False), environ = Map.empty(''IDF_TARGET'' \<mapsto> ''esp32c3''),
       runs = (\<lambda>c. False), sys_executable = ''python'', realpath = (\<lambda>p. p)\<rparr>
      \<lparr>project_dir = ''proj'', build_dir = ''build'', define_cache_entry = [],
       ccache = False, generator = None, cmake_warn_uninitialized = False,
       no_hints = False, verbose = False\<rparr>
      ''idf.py'' [(''IDF_TARGET'', ''esp32'')])
   = Some (FatalError (env_vs_sdkconfig_message ''esp32s3'' ''esp32c3'' ''idf.py''))"
proof -
  let ?w = "\<lparr>files = Map.empty(''proj/sdkconfig'' \<mapsto> ''CONFIG_IDF_TARGET='' @ [DQ] @ ''esp32s3'' @ [DQ, NL]),
       is_dir = (\<lambda>p. False), environ = Map.empty(''IDF_TARGET'' \<mapsto> ''esp32c3''),
       runs = (\<lambda>c. False), sys_executable = ''python'', realpath = (\<lambda>p. p)\<rparr>"
  let ?a = "\<lparr>project_dir = ''proj'', build_dir = ''build'', define_cache_entry = [],
       ccache = False, generator = None, cmake_warn_uninitialized = False,
       no_hints = False, verbose = False\<rparr>"
  have t: "get_target ?w (project_dir ?a) ''sdkconfig'' = Some ''esp32s3''" by code_simp
  have e: "environ ?w ''IDF_TARGET'' = Some ''esp32c3''" by simp
  have c: "map_of [(''IDF_TARGET'', ''esp32'')] ''IDF_TARGET'' = Some ''esp32''" by simp
  have v: "violated_rules (Some ''esp32s3'') (Some ''esp32c3'') (Some ''esp32'')
      = [Env_vs_config, Env_vs_cache, Cache_vs_config]" by code_simp
  show ?thesis
    using first_violated_rule_wins[of ?w ?a "''idf.py''" "[(''IDF_TARGET'', ''esp32'')]"]
    unfolding t e c v by (simp add: str_of_def)
qed

lemma get_target_scenario:
  assumes "files w (path_join (project_dir a) ''sdkconfig'')
      = Some (''CONFIG_IDF_TARGET='' @ [DQ] @ ''esp32c3'' @ [DQ, NL])"
  shows "get_target w (project_dir a) ''sdkconfig'' = Some ''esp32c3''"
proof -
  have "sdkconfig_scan ''CONFIG_IDF_TARGET'' None
          (file_lines (''CONFIG_IDF_TARGET='' @ [DQ] @ ''esp32c3'' @ [DQ, NL]))
        = Some ''esp32c3''" by code_simp
  then show ?thesis using assms
    by (simp add: get_target_def get_sdkconfig_value_def)
qed

text \<open>
  Claim C8: whenever no persisted cache exists and no environment target is set, and a
  target is inferable from the project's sdkconfig file or else from its defaults
  variant, the resolver raises no conflict and appends \<open>IDF_TARGET=\<close> and the inferred
  value to the proposed entries.  In particular, with no cache file, no environment
  target and an sdkconfig that declares \<open>esp32c3\<close>, the proposed entries gain
  \<open>IDF_TARGET=esp32c3\<close>.
\<close>

theorem guessed_target_appended:
  "(files w (cache_path a) = None \<and> \<not> truthy (environ w ''IDF_TARGET'')
     \<and> g \<noteq> []
     \<and> (get_target w (project_dir a) ''sdkconfig'' = Some g
         \<or> \<not> truthy (get_target w (project_dir a) ''sdkconfig'')
           \<and> get_target w (project_dir a) ''sdkconfig.defaults'' = Some g)
     \<longrightarrow> guess_or_check_idf_target w a prog (load_cache w a)
           = Inr (a\<lparr>define_cache_entry := define_cache_entry a @ [''IDF_TARGET='' @ g]\<rparr>))
   \<and> (files w (cache_path a) = None \<and> \<not> truthy (environ w ''IDF_TARGET'')
       \<and> files w (path_join (project_dir a) ''sdkconfig'')
            = Some (''CONFIG_IDF_TARGET='' @ [DQ] @ ''esp32c3'' @ [DQ, NL])
     \<longrightarrow> guess_or_check_idf_target w a prog (load_cache w a)
           = Inr (a\<lparr>define_cache_entry := define_cache_entry a @ [''IDF_TARGET=esp32c3'']\<rparr>))"
proof -
  have gen: "guess_or_check_idf_target w a prog (load_cache w a)
           = Inr (a\<lparr>define_cache_entry := define_cache_entry a @ [''IDF_TARGET='' @ h]\<rparr>)"
    if "files w (cache_path a) = None" "\<not> truthy (environ w ''IDF_TARGET'')" "h \<noteq> []"
       "get_target w (project_dir a) ''sdkconfig'' = Some h
         \<or> \<not> truthy (get_target w (project_dir a) ''sdkconfig'')
           \<and> get_target w (project_dir a) ''sdkconfig.defaults'' = Some h" for h
    using that
    by (auto simp: guess_or_check_idf_target_def load_cache_def Let_def truthy_def str_of_def)
  have "files w (cache_path a) = None \<and> \<not> truthy (environ w ''IDF_TARGET'')
       \<and> files w (path_join (project_dir a) ''sdkconfig'')
            = Some (''CONFIG_IDF_TARGET='' @ [DQ] @ ''esp32c3'' @ [DQ, NL])
     \<longrightarrow> guess_or_check_idf_target w a prog (load_cache w a)
           = Inr (a\<lparr>define_cache_entry := define_cache_entry a @ [''IDF_TARGET=esp32c3'']\<rparr>)"
    using gen[of "''esp32c3''"] get_target_scenario[of w a] by simp
  then show ?thesis using gen[of g] by blast
qed

theorem guessed_target_appended_witness:
  "guess_or_check_idf_target
      \<lparr>files = Map.empty(''proj/sdkconfig'' \<mapsto> ''CONFIG_IDF_TARGET='' @ [DQ] @ ''esp32c3'' @ [DQ, NL]),
       is_dir = (\<lambda>p. False), environ = Map.empty,
       runs = (\<lambda>c. False), sys_executable = ''python'', realpath = (\<lambda>p. p)\<rparr>
      \<lparr>project_dir = ''proj'', build_dir = ''build'', define_cache_entry = [''A=1''],
       ccache = False, generator = None, cmake_warn_uninitialized = False,
       no_hints = False, verbose = False\<rparr>
      ''idf.py''
      (load_cache
        \<lparr>files = Map.empty(''proj/sdkconfig'' \<mapsto> ''CONFIG_IDF_TARGET='' @ [DQ] @ ''esp32c3'' @ [DQ, NL]),
         is_dir = (\<lambda>p. False), environ = Map.empty,
         runs = (\<lambda>c. False), sys_executable = ''python'', realpath = (\<lambda>p. p)\<rparr>
        \<lparr>project_dir = ''proj'', build_dir = ''build'', define_cache_entry = [''A=1''],
         ccache = False, generator = None, cmake_warn_uninitialized = False,
         no_hints = False, verbose = False\<rparr>)
   = Inr \<lparr>project_dir = ''proj'', build_dir = ''build'',
          define_cache_entry = [''A=1'', ''IDF_TARGET=esp32c3''],
          ccache = False, generator = None, cmake_warn_uninitialized = False,
          no_hints = False, verbose = False\<rparr>"
proof -
  let ?w = "\<lparr>files = Map.empty(''proj/sdkconfig'' \<mapsto> ''CONFIG_IDF_TARGET='' @ [DQ] @ ''esp32c3'' @ [DQ, NL]),
       is_dir = (\<lambda>p. False), environ = Map.empty,
       runs = (\<lambda>c. False), sys_executable = ''python'', realpath = (\<lambda>p. p)\<rparr>"
  let ?a = "\<lparr>project_dir = ''proj'', build_dir = ''build'', define_cache_entry = [''A=1''],
       ccache = False, generator = None, cmake_warn_uninitialized = False,
       no_hints = False, verbose = False\<rparr>"
  have h1: "files ?w (cache_path ?a) = None"
    by (simp add: cache_path_def path_join_def)
  have h2: "\<not> truthy (environ ?w ''IDF_TARGET'')"
    by (simp add: truthy_def)
  have h3: "files ?w (path_join (project_dir ?a) ''sdkconfig'')
      = Some (''CONFIG_IDF_TARGET='' @ [DQ] @ ''esp32c3'' @ [DQ, NL])"
    by (simp add: path_join_def)
  have "guess_or_check_idf_target ?w ?a ''idf.py'' (load_cache ?w ?a)
      = Inr (?a\<lparr>define_cache_entry := define_cache_entry ?a @ [''IDF_TARGET=esp32c3'']\<rparr>)"
    using guessed_target_appended[where w = ?w and a = ?a and prog = "''idf.py''" and g = "''x''",
        THEN conjunct2, THEN mp, OF conjI[OF h1 conjI[OF h2 h3]]] .
  then show ?thesis by simp
qed

section \<open>Properties of the HintEngine\<close>

lemma scan_variables_length:
  "scan_variables search h output vs acc = Inr hl \<Longrightarrow>
   length hl = length acc + length (filter (varset_matches search h output) vs)"
proof (induction vs arbitrary: acc)
  case Nil
  then show ?case by simp
next
  case (Cons v vs)
  from Cons.prems obtain hv rv t regex where
    f: "hint_variables v = Some hv" "re_variables v = Some rv" "re h = Some t"
       "format t rv = Inr regex"
    by (auto split: option.splits sum.splits)
  show ?case
  proof (cases "search regex output")
    case (Matched gs)
    with Cons.prems f obtain ht m where
      m: "hint h = Some ht" "format ht hv = Inr m"
         "scan_variables search h output vs (acc @ [m]) = Inr hl"
      by (auto split: option.splits sum.splits)
    from Cons.IH[OF m(3)] Matched f show ?thesis
      by (simp add: varset_matches_def)
  next
    case No_match
    with Cons.prems f have "scan_variables search h output vs acc = Inr hl" by simp
    from Cons.IH[OF this] No_match f show ?thesis
      by (simp add: varset_matches_def)
  next
    case Re_error
    with Cons.prems f show ?thesis by simp
  next
    case Re_unmodelled
    with Cons.prems f show ?thesis by simp
  qed
qed

lemma yield_match_length: "yield_match h x = (ys, None) \<Longrightarrow> length ys = 1"
  by (auto simp: yield_match_def split: option.splits sum.splits)

lemma hints_of_rule_length:
  assumes "hints_of_rule search h output = (ys, None)"
  shows "length ys = matches_in search h output"
proof (cases "\<exists>v vs. variables h = Some (v # vs)")
  case True
  then obtain v vs where vs: "variables h = Some (v # vs)" by blast
  with assms obtain hl where
    hl: "scan_variables search h output (v # vs) [] = Inr hl"
        "ys = map (\<lambda>message. ''HINT: '' @ message) hl"
    by (auto simp: hints_of_rule_def split: sum.splits)
  from scan_variables_length[OF hl(1)] hl(2) vs show ?thesis
    by (simp add: matches_in_def)
next
  case False
  then have nv: "variables h = None \<or> variables h = Some []"
  proof (cases "variables h")
    case None
    then show ?thesis by simp
  next
    case (Some a)
    then show ?thesis using False by (cases a) auto
  qed
  from assms nv obtain regex where r: "re h = Some regex"
    by (auto simp: hints_of_rule_def split: option.splits)
  show ?thesis
  proof (cases "search regex output")
    case (Matched gs)
    from assms nv r Matched have "length ys = 1"
      by (auto simp: hints_of_rule_def yield_match_length split: if_splits sum.splits)
    then show ?thesis using nv r Matched
      by (auto simp: matches_in_def rule_matches_def)
  next
    case No_match
    then show ?thesis using assms nv r
      by (auto simp: hints_of_rule_def matches_in_def rule_matches_def)
  next
    case Re_error
    then show ?thesis using assms nv r by (auto simp: hints_of_rule_def)
  next
    case Re_unmodelled
    then show ?thesis using assms nv r by (auto simp: hints_of_rule_def)
  qed
qed

lemma hints_of_rule_none:
  assumes "matches_in search h output = 0"
  shows "fst (hints_of_rule search h output) = []"
proof (cases "\<exists>v vs. variables h = Some (v # vs)")
  case True
  then obtain v vs where vs: "variables h = Some (v # vs)" by blast
  show ?thesis
  proof (cases "scan_variables search h output (v # vs) []")
    case (Inl e)
    then show ?thesis using vs by (simp add: hints_of_rule_def)
  next
    case (Inr hl)
    from scan_variables_length[OF Inr] assms vs have "hl = []"
      by (simp add: matches_in_def)
    then show ?thesis using vs Inr by (simp add: hints_of_rule_def)
  qed
next
  case False
  then have nv: "variables h = None \<or> variables h = Some []"
  proof (cases "variables h")
    case None
    then show ?thesis by simp
  next
    case (Some a)
    then show ?thesis using False by (cases a) auto
  qed
  with assms have "\<not> rule_matches search h output"
    by (auto simp: matches_in_def split: if_splits)
  then show ?thesis using nv
    by (cases "search (the (re h)) output")
       (auto simp: hints_of_rule_def rule_matches_def split: option.splits)
qed

lemma hints_of_rules_length:
  "hints_of_rules search output hs = (ys, None) \<Longrightarrow>
   length ys = (\<Sum>h\<leftarrow>hs. matches_in search h output)"
proof (induction hs arbitrary: ys)
  case Nil
  then show ?case by simp
next
  case (Cons h hs)
  from Cons.prems obtain y1 y2 where
    s: "hints_of_rule search h output = (y1, None)"
       "hints_of_rules search output hs = (y2, None)" "ys = y1 @ y2"
    by (auto split: prod.splits option.splits)
  from hints_of_rule_length[OF s(1)] Cons.IH[OF s(2)] s(3) show ?case by simp
qed

lemma generate_hints_length:
  "generate_hints search db w fs = (ys, None) \<Longrightarrow>
   length ys = (\<Sum>f\<leftarrow>fs. \<Sum>h\<leftarrow>db. matches_in search h (log_text w f))"
proof (induction fs arbitrary: ys)
  case Nil
  then show ?case by simp
next
  case (Cons f fs)
  from Cons.prems obtain t y1 y2 where
    s: "files w f = Some t" "hints_of_rules search (flatten t) db = (y1, None)"
       "generate_hints search db w fs = (y2, None)" "ys = y1 @ y2"
    by (auto split: prod.splits option.splits)
  from hints_of_rules_length[OF s(2)] Cons.IH[OF s(3)] s(1) s(4) show ?case
    by (simp add: log_text_def)
qed

text \<open>
  Claim C5, as stated: the number of hints equals the number of distinct matching
  rule/variable-set pairs across all input files combined.  It fails: the scan is run
  for each file, so a pair that matches in two files yields two hints.  With the one
  rule \<open>error\<close> (no variable sets) and two logs that both hold \<open>error\<close>, one pair matches
  and two hints are yielded.
\<close>

theorem hints_repeat_per_file:
  "generate_hints literal_search
      [\<lparr>re = Some ''error'', hint = Some ''fix it'', variables = None, match_to_output = False\<rparr>]
      \<lparr>files = Map.empty(''err'' \<mapsto> ''error'' @ [NL], ''out'' \<mapsto> ''error'' @ [NL]),
       is_dir = (\<lambda>p. False), environ = Map.empty,
       runs = (\<lambda>c. False), sys_executable = ''python'', realpath = (\<lambda>p. p)\<rparr>
      [''err'', ''out'']
     = ([''HINT: fix it'', ''HINT: fix it''], None)
   \<and> matching_pairs literal_search
      [\<lparr>re = Some ''error'', hint = Some ''fix it'', variables = None, match_to_output = False\<rparr>]
      [flatten (''error'' @ [NL]), flatten (''error'' @ [NL])]
     = [(0, None)]"
  by code_simp

text \<open>
  Claim C5, amended: for every rule database and every list of input files, when the
  scan runs to its end the number of hints it yields equals the number of matching
  rule/variable-set pairs counted for each input file separately and added up (a rule
  without variable sets counts once for each file it matches, a pair that matches in two
  files counts twice); and a rule with no matching variable set and no unconditional
  match in a file contributes no hint for that file.
\<close>

theorem hint_count:
  "(generate_hints search db w fs = (ys, None) \<longrightarrow>
      length ys = (\<Sum>f\<leftarrow>fs. \<Sum>h\<leftarrow>db. matches_in search h (log_text w f)))
   \<and> (matches_in search h output = 0 \<longrightarrow> fst (hints_of_rule search h output) = [])"
  using generate_hints_length[of search db w fs ys] hints_of_rule_none[of search h "output"]
  by blast

theorem hint_count_witness:
  "generate_hints literal_search
      [linkage_rule,
       \<lparr>re = Some ''error'', hint = Some ''fix it'', variables = None, match_to_output = False\<rparr>]
      \<lparr>files = Map.empty(''err'' \<mapsto> ''error: undefined reference to '' @ [BQ] @ ''foo'' @ [SQ, NL],
                         ''out'' \<mapsto> ''1 error'' @ [NL]),
       is_dir = (\<lambda>p. False), environ = Map.empty,
       runs = (\<lambda>c. False), sys_executable = ''python'', realpath = (\<lambda>p. p)\<rparr>
      [''err'', ''out'']
     = ([''HINT: Check linkage of foo symbol'', ''HINT: fix it'', ''HINT: fix it''], None)
   \<and> length [''HINT: Check linkage of foo symbol'', ''HINT: fix it'', ''HINT: fix it'']
     = (\<Sum>f\<leftarrow>[''err'', ''out''].
         \<Sum>h\<leftarrow>[linkage_rule,
              \<lparr>re = Some ''error'', hint = Some ''fix it'', variables = None,
               match_to_output = False\<rparr>].
           matches_in literal_search h
             (log_text
               \<lparr>files = Map.empty(''err'' \<mapsto> ''error: undefined reference to '' @ [BQ] @ ''foo'' @ [SQ, NL],
                                  ''out'' \<mapsto> ''1 error'' @ [NL]),
                is_dir = (\<lambda>p. False), environ = Map.empty,
                runs = (\<lambda>c. False), sys_executable = ''python'', realpath = (\<lambda>p. p)\<rparr> f))
   \<and> matches_in literal_search linkage_rule ''1 error'' = 0
   \<and> fst (hints_of_rule literal_search linkage_rule ''1 error'') = []"
proof -
  let ?db = "[linkage_rule,
       \<lparr>re = Some ''error'', hint = Some ''fix it'', variables = None, match_to_output = False\<rparr>]"
  let ?w = "\<lparr>files = Map.empty(''err'' \<mapsto> ''error: undefined reference to '' @ [BQ] @ ''foo'' @ [SQ, NL],
                         ''out'' \<mapsto> ''1 error'' @ [NL]),
       is_dir = (\<lambda>p. False), environ = Map.empty,
       runs = (\<lambda>c. False), sys_executable = ''python'', realpath = (\<lambda>p. p)\<rparr>"
  have g: "generate_hints literal_search ?db ?w [''err'', ''out'']
     = ([''HINT: Check linkage of foo symbol'', ''HINT: fix it'', ''HINT: fix it''], None)"
    by code_simp
  have z: "matches_in literal_search linkage_rule ''1 error'' = 0" by code_simp
  note a = hint_count[of literal_search ?db ?w "[''err'', ''out'']"
      "[''HINT: Check linkage of foo symbol'', ''HINT: fix it'', ''HINT: fix it'']"
      linkage_rule "''1 error''", THEN conjunct1, THEN mp, OF g]
  note b = hint_count[of literal_search ?db ?w "[''err'', ''out'']"
      "[''HINT: Check linkage of foo symbol'', ''HINT: fix it'', ''HINT: fix it'']"
      linkage_rule "''1 error''", THEN conjunct2, THEN mp, OF z]
  from g a z b show ?thesis by (intro conjI)
qed

lemma contains_append: "contains p (a @ p @ b)"
proof (induction a)
  case Nil
  have s: "starts_with p (p @ b)" by (simp add: starts_with_def)
  show ?case
  proof (cases "p @ b")
    case Nil
    then show ?thesis by simp
  next
    case (Cons c cs)
    then show ?thesis using s by simp
  qed
next
  case (Cons c a)
  then show ?case by simp
qed

lemma linkage_rule_formats:
  "format (''undefined reference to '' @ [BQ] @ ''{}'' @ [SQ]) [''foo'']
     = Inr (''undefined reference to '' @ [BQ] @ ''foo'' @ [SQ])"
  "format ''Check linkage of {}'' [''foo symbol''] = Inr ''Check linkage of foo symbol''"
  "list_ex re_special (''undefined reference to '' @ [BQ] @ ''foo'' @ [SQ]) = False"
  by code_simp+

text \<open>
  Claim C6, as stated: with the one rule whose pattern template is
  \<^verbatim>\<open>undefined reference to `{}'\<close>, over a log whose flattened content contains the text
  \<^verbatim>\<open>undefined reference to 'foo'\<close>, the engine yields the one hint
  \<open>HINT: Check linkage of foo symbol\<close>.  It fails: the filled pattern starts the symbol
  with a backquote, the text of the log with an apostrophe, so the pattern is not found
  and no hint is yielded.
\<close>

theorem linkage_hint_needs_backquote:
  "flatten (''main.o: undefined reference to '' @ [SQ] @ ''foo'' @ [SQ, NL])
     = ''main.o: '' @ (''undefined reference to '' @ [SQ] @ ''foo'' @ [SQ])
   \<and> generate_hints literal_search [linkage_rule]
      \<lparr>files = Map.empty(''log'' \<mapsto> ''main.o: undefined reference to '' @ [SQ] @ ''foo'' @ [SQ, NL]),
       is_dir = (\<lambda>p. False), environ = Map.empty,
       runs = (\<lambda>c. False), sys_executable = ''python'', realpath = (\<lambda>p. p)\<rparr>
      [''log'']
     = ([], None)"
  by code_simp

text \<open>
  Claim C6, amended: with the one rule whose pattern template is
  \<^verbatim>\<open>undefined reference to `{}'\<close>, message template \<open>Check linkage of {}\<close> and one
  variable set with pattern fill-in \<open>foo\<close> and message fill-in \<open>foo symbol\<close>, over a log
  whose flattened content contains the text \<^verbatim>\<open>undefined reference to `foo'\<close> (a backquote
  before \<open>foo\<close>, an apostrophe after it), the engine yields exactly one hint, the string
  \<open>HINT: Check linkage of foo symbol\<close>.
\<close>

theorem linkage_hint:
  "files w f = Some t \<Longrightarrow>
   flatten t = a @ (''undefined reference to '' @ [BQ] @ ''foo'' @ [SQ]) @ b \<Longrightarrow>
   generate_hints literal_search [linkage_rule] w [f]
     = ([''HINT: Check linkage of foo symbol''], None)"
proof -
  assume f: "files w f = Some t"
    and c: "flatten t = a @ (''undefined reference to '' @ [BQ] @ ''foo'' @ [SQ]) @ b"
  have m: "literal_search (''undefined reference to '' @ [BQ] @ ''foo'' @ [SQ]) (flatten t)
      = Matched []"
    unfolding literal_search_def linkage_rule_formats(3) c
    using contains_append[of "''undefined reference to '' @ [BQ] @ ''foo'' @ [SQ]" a b]
    by simp
  have "hints_of_rule literal_search linkage_rule (flatten t)
      = ([''HINT: Check linkage of foo symbol''], None)"
    using m linkage_rule_formats(1,2)
    by (simp add: hints_of_rule_def linkage_rule_def)
  then show ?thesis using f by simp
qed

theorem linkage_hint_witness:
  "generate_hints literal_search [linkage_rule]
      \<lparr>files = Map.empty(''log'' \<mapsto> ''ld: main.o:'' @ [NL] @ ''  undefined reference to ''
                            @ [BQ] @ ''foo'' @ [SQ, NL] @ ''collect2: error'' @ [NL]),
       is_dir = (\<lambda>p. False), environ = Map.empty,
       runs = (\<lambda>c. False), sys_executable = ''python'', realpath = (\<lambda>p. p)\<rparr>
      [''log'']
     = ([''HINT: Check linkage of foo symbol''], None)"
proof -
  let ?t = "''ld: main.o:'' @ [NL] @ ''  undefined reference to ''
                            @ [BQ] @ ''foo'' @ [SQ, NL] @ ''collect2: error'' @ [NL]"
  let ?w = "\<lparr>files = Map.empty(''log'' \<mapsto> ?t),
       is_dir = (\<lambda>p. False), environ = Map.empty,
       runs = (\<lambda>c. False), sys_executable = ''python'', realpath = (\<lambda>p. p)\<rparr>"
  have f: "files ?w ''log'' = Some ?t" by simp
  have c: "flatten ?t = ''ld: main.o: '' @ (''undefined reference to '' @ [BQ] @ ''foo'' @ [SQ])
      @ '' collect2: error''" by code_simp
  show ?thesis by (rule linkage_hint[OF f c])
qed

section \<open>Properties of the ProcessRunner\<close>





section \<open>Properties of the BuildDirectoryManager\<close>

lemma cache_path_generator [simp]: "cache_path (a\<lparr>generator := g\<rparr>) = cache_path a"
  by (simp add: cache_path_def)

lemma run_cmake_Exception:
  "run (cmake_tool w a gen) w = (Some e, w2) \<Longrightarrow> is_Exception e \<Longrightarrow>
   run_cmake run w a gen = (Some e, w2\<lparr>files := (files w2)(cache_path a := None)\<rparr>)"
  by (simp add: run_cmake_def)

lemma configure_Exception:
  assumes "always_run_cmake
           \<or> new_cmakecache_entries (files w (cache_path a)) (define_cache_entry a) = Inr True"
    and "(case generator a of None \<Rightarrow> detect_cmake_generator generators w prog_name
          | Some g \<Rightarrow> Inr g) = Inr gen"
    and "run (cmake_tool w (a\<lparr>generator := Some gen\<rparr>) gen) w = (Some e, w2)"
    and "is_Exception e"
  shows "configure run generators w a prog_name always_run_cmake
     = (Some e, a\<lparr>generator := Some gen\<rparr>, w2\<lparr>files := (files w2)(cache_path a := None)\<rparr>)"
proof -
  have c: "(if always_run_cmake then Inr True
            else new_cmakecache_entries (files w (cache_path a)) (define_cache_entry a))
      = Inr True"
    using assms(1) by auto
  have r: "run_cmake run w (a\<lparr>generator := Some gen\<rparr>) gen
      = (Some e, w2\<lparr>files := (files w2)(cache_path a := None)\<rparr>)"
    using run_cmake_Exception[of run w "a\<lparr>generator := Some gen\<rparr>" gen e w2] assms(3,4)
    by simp
  show ?thesis using c assms(2) r by (simp add: configure_def)
qed

text \<open>
  Claim C3: when \<open>ensure_build_directory\<close> has entered the configure step and an
  exception is raised while the step is assembled or run, the persisted cache file is
  deleted (when it exists) before the exception propagates, so that no partly written
  cache file is left.  The code does not keep this for every exception, against its own
  comment (\<open>don't allow partially valid CMakeCache.txt files\<close>): the handler is
  \<open>except Exception\<close>, which lets \<open>KeyboardInterrupt\<close> and \<open>SystemExit\<close> pass with the
  cache file in place.  The theorem evaluates two runs in a project \<open>proj\<close> with the
  build directory \<open>build\<close> and no cache file.  In the first, \<open>cmake\<close> has written part of
  the cache when the user interrupts it, and \<open>KeyboardInterrupt\<close> is raised while
  \<open>RunTool.__call__\<close> waits.  In the second, \<open>cmake\<close> writes part of the cache and exits
  with code 1, the first rule of the hint database has no pattern, and \<open>generate_hints\<close>
  calls \<open>sys.exit(1)\<close>.  Both times the exception leaves \<open>ensure_build_directory\<close> and
  the partly written cache file is still there.
\<close>

theorem partial_cache_survives_exit:
  "raised_and_file
     (ensure_build_directory (\<lambda>cmd. Inl CalledProcessError)
        (\<lambda>rt w. snd (RunTool_call literal_search [] os_mkdir
            (\<lambda>rt w. (Spawn_raises KeyboardInterrupt,
               w\<lparr>files := (files w)(''build/CMakeCache.txt''
                      \<mapsto> ''CMAKE_GENERATOR:INTERNAL=Ninja'' @ [NL])\<rparr>))
            rt w))
        [(''Ninja'', [''ninja'', ''--version''])]
        \<lparr>files = Map.empty(''proj/CMakeLists.txt'' \<mapsto> ''project(app)'' @ [NL]),
         is_dir = (\<lambda>p. p = ''proj'' \<or> p = ''build''), environ = Map.empty,
         runs = (\<lambda>c. True), sys_executable = ''python'', realpath = (\<lambda>p. p)\<rparr>
        \<lparr>project_dir = ''proj'', build_dir = ''build'', define_cache_entry = [],
         ccache = False, generator = Some ''Ninja'', cmake_warn_uninitialized = False,
         no_hints = False, verbose = False\<rparr>
        ''idf.py'' False)
     ''build/CMakeCache.txt''
   = (Some KeyboardInterrupt, Some (''CMAKE_GENERATOR:INTERNAL=Ninja'' @ [NL]))
   \<and> raised_and_file
     (ensure_build_directory (\<lambda>cmd. Inl CalledProcessError)
        (\<lambda>rt w. snd (RunTool_call literal_search
            [\<lparr>re = None, hint = Some ''fix it'', variables = None, match_to_output = False\<rparr>]
            os_mkdir
            (\<lambda>rt w. (Exits 7 1,
               w\<lparr>files := (files w)(''build/CMakeCache.txt''
                      \<mapsto> ''CMAKE_GENERATOR:INTERNAL=Ninja'' @ [NL],
                     ''build/log/idf_py_stderr_output_7'' \<mapsto> ''CMake Error'' @ [NL],
                     ''build/log/idf_py_stdout_output_7'' \<mapsto> [])\<rparr>))
            rt w))
        [(''Ninja'', [''ninja'', ''--version''])]
        \<lparr>files = Map.empty(''proj/CMakeLists.txt'' \<mapsto> ''project(app)'' @ [NL]),
         is_dir = (\<lambda>p. p = ''proj'' \<or> p = ''build''), environ = Map.empty,
         runs = (\<lambda>c. True), sys_executable = ''python'', realpath = (\<lambda>p. p)\<rparr>
        \<lparr>project_dir = ''proj'', build_dir = ''build'', define_cache_entry = [],
         ccache = False, generator = Some ''Ninja'', cmake_warn_uninitialized = False,
         no_hints = False, verbose = False\<rparr>
        ''idf.py'' False)
     ''build/CMakeCache.txt''
   = (Some (SystemExit ''1''), Some (''CMAKE_GENERATOR:INTERNAL=Ninja'' @ [NL]))"
  by code_simp

text \<open>
  The generator is detected after the configure step is entered and before the \<open>try\<close>:
  when the caller forces the step, no generator is given and none is usable, the
  \<open>FatalError\<close> of \<open>_detect_cmake_generator\<close> propagates and the cache file, which the
  step has not touched, stays as it was.
\<close>

lemma generator_failure_keeps_cache:
  "raised_and_file
     (ensure_build_directory (\<lambda>cmd. Inl CalledProcessError)
        (\<lambda>rt w. (None, w))
        [(''Ninja'', [''ninja'', ''--version''])]
        \<lparr>files = Map.empty(''proj/CMakeLists.txt'' \<mapsto> ''project(app)'' @ [NL],
                          ''build/CMakeCache.txt'' \<mapsto> ''CCACHE_ENABLE:UNINITIALIZED=0'' @ [NL]),
         is_dir = (\<lambda>p. p = ''proj'' \<or> p = ''build''), environ = Map.empty,
         runs = (\<lambda>c. c = [''cmake'', ''--version'']), sys_executable = ''python'',
         realpath = (\<lambda>p. p)\<rparr>
        \<lparr>project_dir = ''proj'', build_dir = ''build'', define_cache_entry = [],
         ccache = False, generator = None, cmake_warn_uninitialized = False,
         no_hints = False, verbose = False\<rparr>
        ''idf.py'' True)
     ''build/CMakeCache.txt''
   = (Some (FatalError (no_generator_message ''idf.py'')),
      Some (''CCACHE_ENABLE:UNINITIALIZED=0'' @ [NL]))"
  by code_simp

text \<open>
  The clean-up that the handler does perform: when the configure step is entered, the
  generator is resolved and the run of the configure command raises an exception of the
  class \<open>Exception\<close> (such as the \<open>FatalError\<close> of a failed tool), the cache file is
  deleted before that exception propagates; and a cache file that is absent makes the
  next run enter the configure step, whatever the proposed entries.
\<close>

lemma failed_configure_removes_cache:
  "(prepare check_output w a prog_name = (None, a1, w1)
      \<and> (always_run_cmake
           \<or> new_cmakecache_entries (files w1 (cache_path a1)) (define_cache_entry a1) = Inr True)
      \<and> (case generator a1 of None \<Rightarrow> detect_cmake_generator generators w1 prog_name
          | Some g \<Rightarrow> Inr g) = Inr gen
      \<and> run (cmake_tool w1 (a1\<lparr>generator := Some gen\<rparr>) gen) w1 = (Some e, w2)
      \<and> is_Exception e
    \<longrightarrow> ensure_build_directory check_output run generators w a prog_name always_run_cmake
          = (Some e, a1\<lparr>generator := Some gen\<rparr>,
             w2\<lparr>files := (files w2)(cache_path a1 := None)\<rparr>))
   \<and> new_cmakecache_entries None entries = Inr True"
proof (intro conjI impI)
  assume h: "prepare check_output w a prog_name = (None, a1, w1)
      \<and> (always_run_cmake
           \<or> new_cmakecache_entries (files w1 (cache_path a1)) (define_cache_entry a1) = Inr True)
      \<and> (case generator a1 of None \<Rightarrow> detect_cmake_generator generators w1 prog_name
          | Some g \<Rightarrow> Inr g) = Inr gen
      \<and> run (cmake_tool w1 (a1\<lparr>generator := Some gen\<rparr>) gen) w1 = (Some e, w2)
      \<and> is_Exception e"
  then have c: "configure run generators w1 a1 prog_name always_run_cmake
     = (Some e, a1\<lparr>generator := Some gen\<rparr>, w2\<lparr>files := (files w2)(cache_path a1 := None)\<rparr>)"
    using configure_Exception[of always_run_cmake w1 a1 generators prog_name gen run e w2]
    by blast
  from h have p: "prepare check_output w a prog_name = (None, a1, w1)" by blast
  show "ensure_build_directory check_output run generators w a prog_name always_run_cmake
          = (Some e, a1\<lparr>generator := Some gen\<rparr>,
             w2\<lparr>files := (files w2)(cache_path a1 := None)\<rparr>)"
    using p c by (simp add: ensure_build_directory_def)
next
  show "new_cmakecache_entries None entries = Inr True"
    by (simp add: new_cmakecache_entries_def)
qed

lemma failed_tool_removes_cache:
  "raised_and_file
     (ensure_build_directory (\<lambda>cmd. Inl CalledProcessError)
        (\<lambda>rt w. snd (RunTool_call literal_search [] os_mkdir
            (\<lambda>rt w. (Exits 7 1,
               w\<lparr>files := (files w)(''build/CMakeCache.txt''
                      \<mapsto> ''CMAKE_GENERATOR:INTERNAL=Ninja'' @ [NL],
                     ''build/log/idf_py_stderr_output_7'' \<mapsto> ''CMake Error'' @ [NL],
                     ''build/log/idf_py_stdout_output_7'' \<mapsto> [])\<rparr>))
            rt w))
        [(''Ninja'', [''ninja'', ''--version''])]
        \<lparr>files = Map.empty(''proj/CMakeLists.txt'' \<mapsto> ''project(app)'' @ [NL]),
         is_dir = (\<lambda>p. p = ''proj'' \<or> p = ''build''), environ = Map.empty,
         runs = (\<lambda>c. True), sys_executable = ''python'', realpath = (\<lambda>p. p)\<rparr>
        \<lparr>project_dir = ''proj'', build_dir = ''build'', define_cache_entry = [],
         ccache = False, generator = Some ''Ninja'', cmake_warn_uninitialized = False,
         no_hints = False, verbose = False\<rparr>
        ''idf.py'' False)
     ''build/CMakeCache.txt''
   = (Some (FatalError (''cmake failed with exit code 1, output of the command is in the ''
              @ ''build/log/idf_py_stderr_output_7 and build/log/idf_py_stdout_output_7'')),
      None)"
  by code_simp

end
